theory Spec2Isabelle
  imports Complex_Main "HOL-Library.AList"
begin

section \<open>Data model\<close>

text \<open>
  The values Python stores in the attribute dictionary, in the parameter dictionary of the
  HOD model and in the keyword arguments. Numbers are only stored and handed on, never
  computed with.
\<close>

datatype val = NoneV | IntV int | FloatV real | StrV string | ListV "val list"

text \<open>
  A numpy structured array (and the astropy Table built from it): a list of named, typed
  fields and a list of rows, every row holding one cell per field. The element type
  \<open>'O'\<close> (a dynamically typed Python object) is \<open>ObjectT\<close>, the fixed-width text type
  \<open>'U<w>'\<close> is \<open>UnicodeT w\<close>, the 64-bit integers are \<open>Int64T\<close> and the double-precision
  floats \<open>Float64T\<close>; the other element types of numpy are not modelled. A cell \<open>Num x\<close>
  is a float of value \<open>x\<close>, a cell \<open>Int64 n\<close> an integer, and a cell \<open>Obj s\<close> a Python
  object whose \<open>str()\<close> is \<open>s\<close>.
\<close>

datatype ftype = ObjectT | UnicodeT nat | Int64T | Float64T

datatype cell = Num real | Int64 int | Txt string | Obj string

record sarray =
  dtype :: "(string \<times> ftype) list"
  rows :: "cell list list"

definition colnames :: "sarray \<Rightarrow> string list" where
  "colnames data = map fst (dtype data)"

definition len :: "sarray \<Rightarrow> nat" where
  "len data = length (rows data)"

text \<open>The invariant of a structured array: every row holds one cell per field.\<close>

definition wellformed :: "sarray \<Rightarrow> bool" where
  "wellformed data = list_all (\<lambda>row. length row = length (dtype data)) (rows data)"

text \<open>
  The exceptions of the program as values. The source raises \<open>ValueError\<close> with three
  different messages: a missing parameter at construction, an unknown parameter at
  repopulation, and an empty catalog; each message has a constructor of its own, named
  as the specification names it. Reading a field an array does not have is
  \<open>MissingColumnError\<close>; \<open>TransformError\<close> is whatever the external model raises.
\<close>

datatype error =
    MissingParameterError string
  | UnknownParameterError string "string list"
  | EmptyResultError
  | MissingColumnError string
  | TransformError string
  | AttributeError string
  | KeyError string

text \<open>The position of a field: the first field of that name.\<close>

fun field_index :: "string list \<Rightarrow> string \<Rightarrow> nat option" where
  "field_index [] name = None"
| "field_index (n # ns) name =
     (if n = name then Some 0 else map_option Suc (field_index ns name))"

text \<open>\<open>data[name]\<close>: the column of a field, which raises when there is no such field.\<close>

definition getitem :: "sarray \<Rightarrow> string \<Rightarrow> error + cell list" where
  "getitem data name =
     (case field_index (colnames data) name of
        None \<Rightarrow> Inl (MissingColumnError name)
      | Some j \<Rightarrow> Inr (map (\<lambda>row. row ! j) (rows data)))"

text \<open>
  \<open>data[name] = column\<close>: replaces the column of an existing field, type and cells, in
  place; a new name adds a field at the end.
\<close>

definition setitem :: "sarray \<Rightarrow> string \<Rightarrow> ftype \<times> cell list \<Rightarrow> sarray" where
  "setitem data name col =
     (case field_index (colnames data) name of
        None \<Rightarrow>
          \<lparr>dtype = dtype data @ [(name, fst col)],
           rows = map (\<lambda>(row, c). row @ [c]) (zip (rows data) (snd col))\<rparr>
      | Some j \<Rightarrow>
          \<lparr>dtype = (dtype data)[j := (name, fst col)],
           rows = map (\<lambda>(row, c). row[j := c]) (zip (rows data) (snd col))\<rparr>)"

section \<open>Object columns to text\<close>

text \<open>
  \<open>column.astype('U')\<close>: every object becomes its text, and the column gets the
  fixed-width text type wide enough for the longest of them (at least one character).
  The cells of a column of object type are objects; a cell of another kind is left as it
  is.
\<close>

definition to_text :: "cell \<Rightarrow> cell" where
  "to_text c =
     (case c of Obj s \<Rightarrow> Txt s | Txt s \<Rightarrow> Txt s | Num x \<Rightarrow> Num x | Int64 n \<Rightarrow> Int64 n)"

definition text_width :: "cell \<Rightarrow> nat" where
  "text_width c =
     (case c of Obj s \<Rightarrow> length s | Txt s \<Rightarrow> length s | Num x \<Rightarrow> 0 | Int64 n \<Rightarrow> 0)"

definition astype_U :: "cell list \<Rightarrow> ftype \<times> cell list" where
  "astype_U col = (UnicodeT (fold max (map text_width col) 1), map to_text col)"

text \<open>
  The body of the loop of \<open>remove_object_dtypes\<close>: a column whose type is \<open>'O'\<close> is
  replaced by its text form, any other column is left alone.
\<close>

definition convert_if_object :: "string \<Rightarrow> sarray \<Rightarrow> sarray" where
  "convert_if_object col data =
     (case (map_of (dtype data) col, getitem data col) of
        (Some ObjectT, Inr column) \<Rightarrow> setitem data col (astype_U column)
      | _ \<Rightarrow> data)"

text \<open>The loop over the column names, which are taken once before it.\<close>

fun remove_object_dtypes_loop :: "string list \<Rightarrow> sarray \<Rightarrow> sarray" where
  "remove_object_dtypes_loop [] data = data"
| "remove_object_dtypes_loop (col # cols) data =
     remove_object_dtypes_loop cols (convert_if_object col data)"

definition remove_object_dtypes :: "sarray \<Rightarrow> sarray" where
  "remove_object_dtypes data = remove_object_dtypes_loop (colnames data) data"

section \<open>Collectives\<close>

text \<open>
  Modelled from the spec: \<open>GatherArray\<close> of \<open>nbodykit.utils\<close> is not among the sources.
  The argument lists every rank's local array by increasing rank id; the result is what
  the root receives: the contributions concatenated in that order, the row order inside
  each contribution kept. The fields are those of the first contribution.
\<close>

definition GatherArray :: "sarray list \<Rightarrow> sarray" where
  "GatherArray locals =
     \<lparr>dtype = (case locals of [] \<Rightarrow> [] | a # _ \<Rightarrow> dtype a),
      rows = concat (map rows locals)\<rparr>"

text \<open>
  Modelled from the spec: the number of rows rank \<open>i\<close> receives from a scatter of
  \<open>total_rows\<close> rows over \<open>rank_count\<close> ranks.
\<close>

definition shard_rows :: "nat \<Rightarrow> nat \<Rightarrow> nat \<Rightarrow> nat" where
  "shard_rows total_rows rank_count i =
     (let base = total_rows div rank_count;
          remainder = total_rows mod rank_count
      in if i < remainder then base + 1 else base)"

text \<open>Cutting a sequence into consecutive blocks of the given sizes.\<close>

fun blocks :: "nat list \<Rightarrow> 'a list \<Rightarrow> 'a list list" where
  "blocks [] xs = []"
| "blocks (n # ns) xs = take n xs # blocks ns (drop n xs)"

text \<open>
  Modelled from the spec: \<open>ScatterArray\<close> of \<open>nbodykit.utils\<close> is not among the sources.
  The first argument is the array the root holds (the other ranks pass \<open>None\<close>), the
  result lists the shard of every rank by increasing rank id: a contiguous partition of
  the rows in their order, rank 0 taking the first block, every shard with the fields of
  the root's array.
\<close>

definition ScatterArray :: "sarray \<Rightarrow> nat \<Rightarrow> sarray list" where
  "ScatterArray data rank_count =
     map (\<lambda>block. \<lparr>dtype = dtype data, rows = block\<rparr>)
       (blocks (map (shard_rows (len data) rank_count) [0..<rank_count]) (rows data))"

section \<open>The HOD model and its mock\<close>

text \<open>
  The halo-occupation model belongs to the external library halotools. Of it the catalog
  uses a dictionary of named parameters, kept in insertion order, and a population step,
  here the function \<open>transform\<close>: from the parameters, the name of the halo mass column,
  the seed and a halo table it gives the galaxy table, or fails. The mock object keeps
  the halo table it was built from and, until it is deleted, the galaxy table of the last
  population.
\<close>

type_synonym transform_fn =
  "(string \<times> val) list \<Rightarrow> string \<Rightarrow> val \<Rightarrow> sarray \<Rightarrow> error + sarray"

record mock_obj =
  mock_halo_table :: sarray
  galaxy_table :: "sarray option"

record hod_model =
  param_dict :: "(string \<times> val) list"
  transform :: transform_fn
  mock :: "mock_obj option"

text \<open>\<open>model.populate_mock(halocat, ...)\<close>: builds the mock from the halo table and populates it.\<close>

definition populate_mock :: "hod_model \<Rightarrow> sarray \<Rightarrow> string \<Rightarrow> val \<Rightarrow> error + hod_model" where
  "populate_mock m halocat mass_key seed =
     (case transform m (param_dict m) mass_key seed halocat of
        Inl e \<Rightarrow> Inl e
      | Inr galaxies \<Rightarrow>
          Inr (m\<lparr>mock := Some \<lparr>mock_halo_table = halocat, galaxy_table = Some galaxies\<rparr>\<rparr>))"

text \<open>
  \<open>mock.populate(...)\<close>, on the mock object of the model: populates the existing mock
  again, from the halo table it holds and the parameters the model has now.
\<close>

definition mock_populate :: "hod_model \<Rightarrow> mock_obj \<Rightarrow> string \<Rightarrow> val \<Rightarrow> error + hod_model" where
  "mock_populate m mk mass_key seed =
     (case transform m (param_dict m) mass_key seed (mock_halo_table mk) of
        Inl e \<Rightarrow> Inl e
      | Inr galaxies \<Rightarrow> Inr (m\<lparr>mock := Some (mk\<lparr>galaxy_table := Some galaxies\<rparr>)\<rparr>))"

text \<open>
  The two statements after either population: the galaxy table is read, its object
  columns are turned to text, and the mock's reference to it is deleted.
\<close>

definition take_galaxy_table :: "hod_model \<Rightarrow> error + sarray \<times> hod_model" where
  "take_galaxy_table m =
     (case mock m of
        None \<Rightarrow> Inl (AttributeError ''mock'')
      | Some mk \<Rightarrow>
          (case galaxy_table mk of
             None \<Rightarrow> Inl (AttributeError ''galaxy_table'')
           | Some galaxies \<Rightarrow>
               Inr (remove_object_dtypes galaxies, m\<lparr>mock := Some (mk\<lparr>galaxy_table := None\<rparr>)\<rparr>)))"

text \<open>The keys of the halo mass and halo boundary columns, as halotools names them.\<close>

definition get_halo_mass_key :: "string \<Rightarrow> string" where
  "get_halo_mass_key mdef = ''halo_m'' @ mdef"

definition get_halo_boundary_key :: "string \<Rightarrow> string" where
  "get_halo_boundary_key mdef = ''halo_r'' @ mdef"

section \<open>The catalog and the world around it\<close>

text \<open>
  The program runs on every rank with the same arguments; what differs from rank to rank
  is the halo table a rank holds and the shard it receives. The model keeps one copy of
  what all ranks hold alike (attributes, parameters) and lists, indexed by rank, of what
  they hold apart. The model object and its mock are those of rank 0, the only rank that
  populates.

  Outside the catalog there is the module variable
  \<open>model_defaults.default_haloprop_list_inherited_by_mock\<close> of each rank's process, and
  the sequence of calls made so far to the collectives, to the external model, to
  \<open>remove_object_dtypes\<close> and to \<open>Array.__init__\<close>.
\<close>

datatype call =
    Call_GatherArray
  | Call_remove_object_dtypes
  | Call_populate_mock
  | Call_mock_populate
  | Call_ScatterArray
  | Call_Array_init

record world =
  default_haloprop_list_inherited_by_mock :: "string list list"
  calls :: "call list"

record catalog =
  halo_table :: "sarray list"
  cosmo :: "(string \<times> val) list"
  comm_size :: nat
  attrs :: "string \<rightharpoonup> val"
  mass :: string
  radius :: string
  model :: hod_model
  source :: "sarray list"
  use_cache :: bool
  generation :: nat

definition log_call :: "call \<Rightarrow> world \<Rightarrow> world" where
  "log_call c w = w\<lparr>calls := calls w @ [c]\<rparr>"

text \<open>\<open>d.update(items)\<close>: the items are stored one after the other.\<close>

definition dict_update :: "(string \<rightharpoonup> val) \<Rightarrow> (string \<times> val) list \<Rightarrow> (string \<rightharpoonup> val)" where
  "dict_update d items = fold (\<lambda>(k, v) m. m(k \<mapsto> v)) items d"

text \<open>
  Modelled from the spec: \<open>Array.__init__\<close> of \<open>nbodykit.source.particle.from_numpy\<close> is
  not among the sources. It installs the new shard of every rank as the current one and
  increments the generation counter.
\<close>

definition Array_init :: "catalog \<Rightarrow> sarray list \<Rightarrow> bool \<Rightarrow> catalog" where
  "Array_init self data cache =
     self\<lparr>source := data, use_cache := cache, generation := generation self + 1\<rparr>"

text \<open>
  Modelled from the spec: the collective size \<open>csize\<close> of the base class is not among the
  sources. It is the sum of the shard row counts across all ranks.
\<close>

definition csize :: "catalog \<Rightarrow> nat" where
  "csize self = sum_list (map len (source self))"

text \<open>
  \<open>_log_populated_stats\<close>: for a non-empty table it reads the columns \<open>gal_type\<close> and the
  halo mass, which raises when one is absent. What it logs is not modelled.
\<close>

definition log_populated_stats :: "sarray \<Rightarrow> string \<Rightarrow> error option" where
  "log_populated_stats data mass_key =
     (if len data > 0 then
        (case getitem data ''gal_type'' of
           Inl e \<Rightarrow> Some e
         | Inr gal_type \<Rightarrow>
             (case getitem data mass_key of Inl e \<Rightarrow> Some e | Inr logmass \<Rightarrow> None))
      else None)"

section \<open>Construction\<close>

text \<open>The attributes stored by \<open>HODBase.__init__\<close> before the model is made.\<close>

definition init_attrs ::
  "val \<Rightarrow> string \<Rightarrow> val \<Rightarrow> val \<Rightarrow> val \<Rightarrow> (string \<times> val) list \<Rightarrow> (string \<times> val) list
     \<Rightarrow> (string \<rightharpoonup> val)" where
  "init_attrs Lbox mdef redshift rsd seed params cosmology =
     dict_update
       (dict_update
          [''BoxSize'' \<mapsto> Lbox, ''mdef'' \<mapsto> StrV mdef, ''redshift'' \<mapsto> redshift,
           ''rsd'' \<mapsto> rsd, ''seed'' \<mapsto> seed]
          params)
       (map (\<lambda>(k, v). (''cosmo.'' @ k, v)) cosmology)"

text \<open>
  The loop that sets the HOD parameters: over the parameters the model declares, in the
  order of its dictionary; the first one that is not an attribute raises.
\<close>

fun set_params ::
  "(string \<rightharpoonup> val) \<Rightarrow> string list \<Rightarrow> (string \<times> val) list \<Rightarrow> error + (string \<times> val) list" where
  "set_params a [] pd = Inr pd"
| "set_params a (param # rest) pd =
     (case a param of
        None \<Rightarrow> Inl (MissingParameterError param)
      | Some v \<Rightarrow> set_params a rest (AList.update param v pd))"

text \<open>
  \<open>_makesource\<close>: gather all halos to the root, populate there, scatter the galaxies. On
  success it gives the shards and the catalog, whose halo table on the root is now the
  gathered one.
\<close>

definition makesource :: "catalog \<Rightarrow> world \<Rightarrow> (error + sarray list \<times> catalog) \<times> world" where
  "makesource self w =
     (let all_halos = GatherArray (halo_table self);
          w1 = log_call Call_GatherArray w;
          table = remove_object_dtypes all_halos;
          w2 = log_call Call_remove_object_dtypes w1;
          self1 = self\<lparr>halo_table := (halo_table self)[0 := table]\<rparr>
      in case attrs self1 ''seed'' of
           None \<Rightarrow> (Inl (KeyError ''seed''), w2)
         | Some seed \<Rightarrow>
             (let w3 = log_call Call_populate_mock w2
              in case populate_mock (model self1) table (mass self1) seed of
                   Inl e \<Rightarrow> (Inl e, w3)
                 | Inr m \<Rightarrow>
                     (let w4 = log_call Call_remove_object_dtypes w3
                      in case take_galaxy_table m of
                           Inl e \<Rightarrow> (Inl e, w3)
                         | Inr (data, m') \<Rightarrow>
                             (case log_populated_stats data (mass self1) of
                                Some e \<Rightarrow> (Inl e, w4)
                              | None \<Rightarrow>
                                  (Inr (ScatterArray data (comm_size self1),
                                        self1\<lparr>model := m'\<rparr>),
                                   log_call Call_ScatterArray w4)))))"

text \<open>
  \<open>HODBase.__init__\<close>. The abstract \<open>_makemodel\<close> is the parameter \<open>makemodel\<close>, which
  may read what the object holds when it is called: halo tables, cosmology, attributes and
  the two keys. \<open>halos\<close> lists the halo table of every rank, \<open>Lbox\<close> is the box size of the
  halo catalog; the test that \<open>halos\<close> is a halo catalog is in the types. A failed
  construction gives no catalog; the world is there either way.
\<close>

definition HODBase_init ::
  "(sarray list \<Rightarrow> (string \<times> val) list \<Rightarrow> (string \<rightharpoonup> val) \<Rightarrow> string \<Rightarrow> string \<Rightarrow> hod_model)
     \<Rightarrow> world \<Rightarrow> sarray list \<Rightarrow> val \<Rightarrow> (string \<times> val) list \<Rightarrow> val \<Rightarrow> string
     \<Rightarrow> val option \<Rightarrow> val \<Rightarrow> bool \<Rightarrow> (string \<times> val) list
     \<Rightarrow> (error + catalog) \<times> world" where
  "HODBase_init makemodel w halos Lbox cosmology redshift mdef rsd seed cache params =
     (let rsd' = (case rsd of None \<Rightarrow> ListV [IntV 0, IntV 0, FloatV 0] | Some r \<Rightarrow> r);
          mass_key = get_halo_mass_key mdef;
          radius_key = get_halo_boundary_key mdef;
          w1 = w\<lparr>default_haloprop_list_inherited_by_mock := map colnames halos\<rparr>;
          a = init_attrs Lbox mdef redshift rsd' seed params cosmology;
          m = makemodel halos cosmology a mass_key radius_key
      in case set_params a (map fst (param_dict m)) (param_dict m) of
           Inl e \<Rightarrow> (Inl e, w1)
         | Inr pd \<Rightarrow>
             (let self = \<lparr>halo_table = halos, cosmo = cosmology, comm_size = length halos,
                          attrs = a, mass = mass_key, radius = radius_key,
                          model = m\<lparr>param_dict := pd\<rparr>, source = [], use_cache = cache,
                          generation = 0\<rparr>
              in case makesource self w1 of
                   (Inl e, w2) \<Rightarrow> (Inl e, w2)
                 | (Inr (data, self1), w2) \<Rightarrow>
                     (let self2 = Array_init self1 data cache;
                          w3 = log_call Call_Array_init w2
                      in if csize self2 = 0 then (Inl EmptyResultError, w3)
                         else (Inr self2, w3))))"

section \<open>Repopulation\<close>

text \<open>
  The loop that updates the HOD parameters: over the supplied parameters in their order;
  a name the model does not have raises, after the names before it have been stored.
\<close>

fun update_params ::
  "(string \<times> val) list \<Rightarrow> (string \<times> val) list \<Rightarrow> error option \<times> (string \<times> val) list" where
  "update_params [] pd = (None, pd)"
| "update_params ((name, v) # rest) pd =
     (if name \<in> set (map fst pd) then update_params rest (AList.update name v pd)
      else (Some (UnknownParameterError name (map fst pd)), pd))"

text \<open>
  \<open>repopulate\<close>: an omitted seed is \<open>NoneV\<close>. The object is changed in place, so it is
  returned with the error when the call raises.
\<close>

definition repopulate ::
  "catalog \<Rightarrow> world \<Rightarrow> val \<Rightarrow> (string \<times> val) list \<Rightarrow> error option \<times> catalog \<times> world" where
  "repopulate self w seed params =
     (let self1 = self\<lparr>attrs := (attrs self)(''seed'' \<mapsto> seed)\<rparr>
      in case update_params params (param_dict (model self1)) of
           (Some e, pd) \<Rightarrow> (Some e, self1\<lparr>model := (model self1)\<lparr>param_dict := pd\<rparr>\<rparr>, w)
         | (None, pd) \<Rightarrow>
             (let self2 = self1\<lparr>model := (model self1)\<lparr>param_dict := pd\<rparr>\<rparr>
              in case mock (model self2) of
                   None \<Rightarrow> (Some (AttributeError ''mock''), self2, w)
                 | Some mk \<Rightarrow>
                     (case attrs self2 ''seed'' of
                        None \<Rightarrow> (Some (KeyError ''seed''), self2, w)
                      | Some s \<Rightarrow>
                          (let w1 = log_call Call_mock_populate w
                           in case mock_populate (model self2) mk (mass self2) s of
                                Inl e \<Rightarrow> (Some e, self2, w1)
                              | Inr m \<Rightarrow>
                                  (let w2 = log_call Call_remove_object_dtypes w1
                                   in case take_galaxy_table m of
                                        Inl e \<Rightarrow> (Some e, self2\<lparr>model := m\<rparr>, w1)
                                      | Inr (data, m') \<Rightarrow>
                                          (let self3 = self2\<lparr>model := m'\<rparr>
                                           in case log_populated_stats data (mass self3) of
                                                Some e \<Rightarrow> (Some e, self3, w2)
                                              | None \<Rightarrow>
                                                  (None,
                                                   Array_init self3
                                                     (ScatterArray data (comm_size self3))
                                                     (use_cache self3),
                                                   log_call Call_Array_init
                                                     (log_call Call_ScatterArray w2))))))))"

section \<open>Derived columns\<close>

text \<open>
  \<open>data[name]\<close> as the array it is: the element type of the field with its column.
\<close>

definition column_of :: "sarray \<Rightarrow> string \<Rightarrow> error + ftype \<times> cell list" where
  "column_of data name =
     (case field_index (colnames data) name of
        None \<Rightarrow> Inl (MissingColumnError name)
      | Some j \<Rightarrow> Inr (snd (dtype data ! j), map (\<lambda>row. row ! j) (rows data)))"

text \<open>
  \<open>numpy.vstack\<close> builds one array, which has one element type: the type numpy promotes
  the types of the stacked arrays to. Objects absorb everything; text absorbs numbers,
  and is then wide enough for any of them (21 characters for an integer, 32 for a float);
  floats absorb integers.
\<close>

fun promote :: "ftype \<Rightarrow> ftype \<Rightarrow> ftype" where
  "promote ObjectT t = ObjectT"
| "promote t ObjectT = ObjectT"
| "promote (UnicodeT a) (UnicodeT b) = UnicodeT (max a b)"
| "promote (UnicodeT a) Int64T = UnicodeT (max a 21)"
| "promote Int64T (UnicodeT b) = UnicodeT (max 21 b)"
| "promote (UnicodeT a) Float64T = UnicodeT (max a 32)"
| "promote Float64T (UnicodeT b) = UnicodeT (max 32 b)"
| "promote Float64T t = Float64T"
| "promote t Float64T = Float64T"
| "promote Int64T Int64T = Int64T"

fun result_type :: "ftype list \<Rightarrow> ftype" where
  "result_type [] = Float64T"
| "result_type [t] = t"
| "result_type (t # ts) = promote t (result_type ts)"

text \<open>
  The float nearest to a 64-bit integer. Below \<open>2 ^ 53\<close> in magnitude every integer is
  a float. Above, the floats are the multiples of a power of two, the quantum, which
  doubles with every further bit; the integer is rounded to the nearest multiple, a tie
  going to the multiple with the even factor. Eleven doublings cover the 64-bit integers.
\<close>

fun quantum :: "nat \<Rightarrow> nat \<Rightarrow> nat" where
  "quantum 0 m = 1"
| "quantum (Suc k) m = (if m < 2 ^ 53 then 1 else 2 * quantum k (m div 2))"

definition round_half_even :: "nat \<Rightarrow> nat \<Rightarrow> nat" where
  "round_half_even m q =
     (let d = m div q; r = m mod q
      in if 2 * r < q then d else if q < 2 * r then d + 1 else if even d then d else d + 1)"

definition nearest_float64 :: "int \<Rightarrow> int" where
  "nearest_float64 n =
     (let m = nat \<bar>n\<bar>; q = quantum 11 m; v = int (round_half_even m q * q)
      in if n < 0 then - v else v)"

text \<open>
  The cast of one cell from the element type of its column to another element type. A
  cast to the same type, between text types, or to the object type keeps the cell. An
  integer cast to float is rounded; a number cast to text becomes the text numpy writes
  for it, which is the parameter \<open>number_text\<close>.
\<close>

fun astype :: "(cell \<Rightarrow> string) \<Rightarrow> ftype \<Rightarrow> ftype \<Rightarrow> cell \<Rightarrow> cell" where
  "astype number_text Int64T Float64T c =
     (case c of Int64 n \<Rightarrow> Num (real_of_int (nearest_float64 n)) | _ \<Rightarrow> c)"
| "astype number_text Int64T (UnicodeT w) c = Txt (number_text c)"
| "astype number_text Float64T (UnicodeT w) c = Txt (number_text c)"
| "astype number_text t t' c = c"

definition vstack :: "(cell \<Rightarrow> string) \<Rightarrow> (ftype \<times> cell list) list \<Rightarrow> cell list list" where
  "vstack number_text arrays =
     map (\<lambda>(t, column). map (astype number_text t (result_type (map fst arrays))) column) arrays"

text \<open>
  \<open>Position\<close> and \<open>Velocity\<close>, of the shard \<open>self._source\<close> of the calling rank: the three
  columns are read in turn, stacked as the three rows of a matrix of one element type,
  and the matrix is transposed. \<open>make_column\<close> of the base class wraps the result and
  leaves its rows as they are.
\<close>

definition Position :: "(cell \<Rightarrow> string) \<Rightarrow> sarray \<Rightarrow> error + cell list list" where
  "Position number_text src =
     (case column_of src ''x'' of
        Inl e \<Rightarrow> Inl e
      | Inr x \<Rightarrow>
          (case column_of src ''y'' of
             Inl e \<Rightarrow> Inl e
           | Inr y \<Rightarrow>
               (case column_of src ''z'' of
                  Inl e \<Rightarrow> Inl e
                | Inr z \<Rightarrow> Inr (transpose (vstack number_text [x, y, z])))))"

definition Velocity :: "(cell \<Rightarrow> string) \<Rightarrow> sarray \<Rightarrow> error + cell list list" where
  "Velocity number_text src =
     (case column_of src ''vx'' of
        Inl e \<Rightarrow> Inl e
      | Inr vx \<Rightarrow>
          (case column_of src ''vy'' of
             Inl e \<Rightarrow> Inl e
           | Inr vy \<Rightarrow>
               (case column_of src ''vz'' of
                  Inl e \<Rightarrow> Inl e
                | Inr vz \<Rightarrow> Inr (transpose (vstack number_text [vx, vy, vz])))))"

section \<open>Example data\<close>

text \<open>Three ranks holding two, no and three rows of one numeric column.\<close>

definition example_locals :: "sarray list" where
  "example_locals =
     [\<lparr>dtype = [(''x'', Float64T)], rows = [[Num 1], [Num 2]]\<rparr>,
      \<lparr>dtype = [(''x'', Float64T)], rows = []\<rparr>,
      \<lparr>dtype = [(''x'', Float64T)], rows = [[Num 3], [Num 4], [Num 5]]\<rparr>]"

text \<open>A shard of two rows with the six coordinate columns, and one without \<open>z\<close> and \<open>vz\<close>.\<close>

definition example_shard :: sarray where
  "example_shard =
     \<lparr>dtype = [(''x'', Float64T), (''y'', Float64T), (''z'', Float64T),
               (''vx'', Float64T), (''vy'', Float64T), (''vz'', Float64T)],
      rows = [[Num 1, Num 3, Num 5, Num 7, Num 9, Num 11],
              [Num 2, Num 4, Num 6, Num 8, Num 10, Num 12]]\<rparr>"

definition example_shard_without_z :: sarray where
  "example_shard_without_z =
     \<lparr>dtype = [(''x'', Float64T), (''y'', Float64T), (''vx'', Float64T), (''vy'', Float64T)],
      rows = [[Num 1, Num 3, Num 7, Num 9], [Num 2, Num 4, Num 8, Num 10]]\<rparr>"

text \<open>
  A shard whose \<open>x\<close> holds the integer \<open>2 ^ 53 + 1\<close> beside two float columns. The
  examples cast no number to text; the text function handed to the accessors in them is
  never applied.
\<close>

definition example_shard_mixed :: sarray where
  "example_shard_mixed =
     \<lparr>dtype = [(''x'', Int64T), (''y'', Float64T), (''z'', Float64T)],
      rows = [[Int64 9007199254740993, Num 1, Num 2]]\<rparr>"

definition no_number_text :: "cell \<Rightarrow> string" where
  "no_number_text c = []"

text \<open>
  A toy population: one galaxy per halo, with the columns of the halo table, and no
  galaxy at all for seed 0. The toy model declares two parameters.
\<close>

definition example_transform :: transform_fn where
  "example_transform pd mass_key seed halos =
     (if seed = IntV 0 then Inr (halos\<lparr>rows := []\<rparr>) else Inr halos)"

definition example_makemodel ::
  "sarray list \<Rightarrow> (string \<times> val) list \<Rightarrow> (string \<rightharpoonup> val) \<Rightarrow> string \<Rightarrow> string \<Rightarrow> hod_model" where
  "example_makemodel halos cosmology a mass_key radius_key =
     \<lparr>param_dict = [(''logMmin'', FloatV 13), (''alpha'', FloatV 1)],
      transform = example_transform, mock = None\<rparr>"

text \<open>Two ranks holding two halos and one halo; the column \<open>gal_type\<close> holds objects.\<close>

definition example_halos :: "sarray list" where
  "example_halos =
     [\<lparr>dtype = [(''halo_mvir'', Float64T), (''gal_type'', ObjectT)],
       rows = [[Num 10, Obj ''centrals''], [Num 20, Obj ''satellites'']]\<rparr>,
      \<lparr>dtype = [(''halo_mvir'', Float64T), (''gal_type'', ObjectT)],
       rows = [[Num 30, Obj ''centrals'']]\<rparr>]"

definition example_world :: world where
  "example_world = \<lparr>default_haloprop_list_inherited_by_mock = [[], []], calls = []\<rparr>"

definition example_params :: "(string \<times> val) list" where
  "example_params = [(''logMmin'', FloatV 12), (''alpha'', FloatV 2)]"

text \<open>
  The catalog built from these halos with the toy model, these parameters and seed 1,
  and the world after its construction from \<open>example_world\<close>.
\<close>

definition example_catalog :: catalog where
  "example_catalog =
     \<lparr>halo_table =
        [\<lparr>dtype = [(''halo_mvir'', Float64T), (''gal_type'', UnicodeT 10)],
          rows = [[Num 10, Txt ''centrals''], [Num 20, Txt ''satellites''],
                  [Num 30, Txt ''centrals'']]\<rparr>,
         \<lparr>dtype = [(''halo_mvir'', Float64T), (''gal_type'', ObjectT)],
          rows = [[Num 30, Obj ''centrals'']]\<rparr>],
      cosmo = [(''h'', FloatV 1)],
      comm_size = 2,
      attrs = init_attrs (FloatV 100) ''vir'' (FloatV 0) (ListV [IntV 0, IntV 0, FloatV 0])
                (IntV 1) example_params [(''h'', FloatV 1)],
      mass = ''halo_mvir'',
      radius = ''halo_rvir'',
      model =
        \<lparr>param_dict = [(''logMmin'', FloatV 12), (''alpha'', FloatV 2)],
         transform = example_transform,
         mock = Some
           \<lparr>mock_halo_table =
              \<lparr>dtype = [(''halo_mvir'', Float64T), (''gal_type'', UnicodeT 10)],
               rows = [[Num 10, Txt ''centrals''], [Num 20, Txt ''satellites''],
                       [Num 30, Txt ''centrals'']]\<rparr>,
            galaxy_table = None\<rparr>\<rparr>,
      source =
        [\<lparr>dtype = [(''halo_mvir'', Float64T), (''gal_type'', UnicodeT 10)],
          rows = [[Num 10, Txt ''centrals''], [Num 20, Txt ''satellites'']]\<rparr>,
         \<lparr>dtype = [(''halo_mvir'', Float64T), (''gal_type'', UnicodeT 10)],
          rows = [[Num 30, Txt ''centrals'']]\<rparr>],
      use_cache = False,
      generation = 1\<rparr>"

definition example_world_built :: world where
  "example_world_built =
     \<lparr>default_haloprop_list_inherited_by_mock =
        [[''halo_mvir'', ''gal_type''], [''halo_mvir'', ''gal_type'']],
      calls = [Call_GatherArray, Call_remove_object_dtypes, Call_populate_mock,
               Call_remove_object_dtypes, Call_ScatterArray, Call_Array_init]\<rparr>"

text \<open>A model that declares a parameter named like a stored attribute.\<close>

definition example_model_redshift :: hod_model where
  "example_model_redshift =
     \<lparr>param_dict = [(''alpha'', FloatV 1), (''redshift'', FloatV 9)],
      transform = example_transform, mock = None\<rparr>"

definition example_makemodel_redshift ::
  "sarray list \<Rightarrow> (string \<times> val) list \<Rightarrow> (string \<rightharpoonup> val) \<Rightarrow> string \<Rightarrow> string \<Rightarrow> hod_model" where
  "example_makemodel_redshift halos cosmology a mass_key radius_key = example_model_redshift"

section \<open>Properties of scatter and gather\<close>

lemma length_blocks: "length (blocks ns xs) = length ns"
  by (induction ns arbitrary: xs) simp_all

lemma concat_blocks: "concat (blocks ns xs) = take (sum_list ns) xs"
proof (induction ns arbitrary: xs)
  case Nil
  show ?case by simp
next
  case (Cons n ns)
  have "take n xs @ take (sum_list ns) (drop n xs) = take (n + sum_list ns) xs"
    by (simp add: take_add)
  with Cons show ?case by simp
qed

lemma nth_blocks:
  "i < length ns \<Longrightarrow> blocks ns xs ! i = take (ns ! i) (drop (sum_list (take i ns)) xs)"
proof (induction ns arbitrary: xs i)
  case Nil
  then show ?case by simp
next
  case (Cons n ns)
  show ?case
  proof (cases i)
    case 0
    then show ?thesis by simp
  next
    case (Suc j)
    with Cons.prems have "j < length ns" by simp
    from Cons.IH [OF this, of "drop n xs"] Suc show ?thesis
      by (simp add: add.commute)
  qed
qed

lemma sum_indicator_below: "(\<Sum>k = 0..<i. if k < (r::nat) then 1 else 0) = min i r"
proof -
  have "(\<Sum>k = 0..<i. if k < r then 1 else 0) = card ({0..<i} \<inter> {k. k < r})"
    by (simp add: sum.If_cases)
  also have "{0..<i} \<inter> {k. k < r} = {0..<min i r}"
    by auto
  finally show ?thesis by simp
qed

lemma sum_shard_rows_upto:
  "sum_list (map (shard_rows T R) [0..<i]) = i * (T div R) + min i (T mod R)"
proof -
  have "sum_list (map (shard_rows T R) [0..<i]) = (\<Sum>k = 0..<i. shard_rows T R k)"
    by (simp add: interv_sum_list_conv_sum_set_nat)
  also have "\<dots> = (\<Sum>k = 0..<i. T div R + (if k < T mod R then 1 else 0))"
    by (rule sum.cong) (simp_all add: shard_rows_def Let_def)
  also have "\<dots> = i * (T div R) + (\<Sum>k = 0..<i. if k < T mod R then 1 else 0)"
    by (simp add: sum.distrib)
  finally show ?thesis by (simp add: sum_indicator_below)
qed

lemma sum_shard_rows:
  assumes "0 < R"
  shows "sum_list (map (shard_rows T R) [0..<R]) = T"
proof -
  have "T mod R < R" using assms by simp
  then have "min R (T mod R) = T mod R" by simp
  then show ?thesis by (simp add: sum_shard_rows_upto)
qed

lemma ceil_div:
  assumes "0 < (R::nat)"
  shows "(T + R - 1) div R = (if T mod R = 0 then T div R else T div R + 1)"
proof -
  define q where "q = T div R"
  define r where "r = T mod R"
  have T: "T = R * q + r" and r: "r < R" using assms by (simp_all add: q_def r_def)
  show ?thesis
  proof (cases "r = 0")
    case True
    have "R * q \<le> T + R - 1" using T assms by simp
    moreover have "T + R - 1 < R * Suc q" using T True assms by simp
    ultimately have "(T + R - 1) div R = q" by (rule div_nat_eqI)
    then show ?thesis using True by (simp add: q_def r_def)
  next
    case False
    have "R * (q + 1) \<le> T + R - 1" using T False by simp
    moreover have "T + R - 1 < R * Suc (q + 1)" using T r by simp
    ultimately have "(T + R - 1) div R = q + 1" by (rule div_nat_eqI)
    then show ?thesis using False by (simp add: q_def r_def)
  qed
qed

lemma length_ScatterArray: "length (ScatterArray data R) = R"
  by (simp add: ScatterArray_def length_blocks)

lemma rows_ScatterArray:
  assumes "i < R"
  shows "rows (ScatterArray data R ! i) =
           take (shard_rows (len data) R i)
             (drop (sum_list (map (shard_rows (len data) R) [0..<i])) (rows data))"
proof -
  let ?ns = "map (shard_rows (len data) R) [0..<R]"
  have i: "i < length ?ns" using assms by simp
  have "rows (ScatterArray data R ! i) = blocks ?ns (rows data) ! i"
    using assms by (simp add: ScatterArray_def length_blocks)
  also have "\<dots> = take (?ns ! i) (drop (sum_list (take i ?ns)) (rows data))"
    using i by (rule nth_blocks)
  also have "?ns ! i = shard_rows (len data) R i"
    using assms by simp
  also have "take i ?ns = map (shard_rows (len data) R) [0..<i]"
    using assms by (simp add: take_map take_upt)
  finally show ?thesis .
qed

lemma prefix_le_total:
  assumes "i < R"
  shows "i * (T div R) + min i (T mod R) + shard_rows T R i \<le> (T::nat)"
proof -
  have R: "0 < R" using assms by simp
  have "i * (T div R) + min i (T mod R) + shard_rows T R i
          = Suc i * (T div R) + min (Suc i) (T mod R)"
    by (auto simp: shard_rows_def Let_def min_def)
  also have "\<dots> \<le> R * (T div R) + T mod R"
    using assms by (intro add_mono mult_le_mono1) simp_all
  also have "\<dots> = T" by simp
  finally show ?thesis .
qed

lemma len_ScatterArray:
  assumes "i < R"
  shows "len (ScatterArray data R ! i) = shard_rows (len data) R i"
proof -
  from prefix_le_total [OF assms, of "len data"]
  have "shard_rows (len data) R i \<le> length (rows data) - (i * (len data div R) + min i (len data mod R))"
    by (simp add: len_def)
  then show ?thesis
    using rows_ScatterArray [OF assms, of data] by (simp add: len_def sum_shard_rows_upto)
qed

lemma concat_ScatterArray:
  assumes "0 < R"
  shows "concat (map rows (ScatterArray data R)) = rows data"
proof -
  have "map rows (ScatterArray data R)
          = blocks (map (shard_rows (len data) R) [0..<R]) (rows data)"
    by (simp add: ScatterArray_def comp_def)
  then show ?thesis
    using assms by (simp add: concat_blocks sum_shard_rows len_def)
qed

text \<open>
  C4: a scatter of an array of \<open>T\<close> rows over \<open>R\<close> ranks gives every rank a shard of
  \<open>T div R\<close> or of the ceiling of \<open>T / R\<close> rows: rank \<open>i\<close> gets \<open>T div R + 1\<close> rows if
  \<open>i < T mod R\<close> and \<open>T div R\<close> rows otherwise, so the ranks with the larger size
  \<open>T div R + 1\<close> are exactly the \<open>T mod R\<close> lowest ones.
\<close>

theorem scatter_balanced:
  assumes "0 < R"
  shows "length (ScatterArray data R) = R \<and>
         (\<forall>i<R. len (ScatterArray data R ! i) =
                  (if i < len data mod R then len data div R + 1 else len data div R)) \<and>
         (\<forall>i<R. len (ScatterArray data R ! i) = len data div R \<or>
                 len (ScatterArray data R ! i) = (len data + R - 1) div R) \<and>
         {i. i < R \<and> len (ScatterArray data R ! i) = len data div R + 1} = {i. i < len data mod R} \<and>
         card {i. i < R \<and> len (ScatterArray data R ! i) = len data div R + 1} = len data mod R"
proof -
  let ?T = "len data"
  have size: "len (ScatterArray data R ! i) = (if i < ?T mod R then ?T div R + 1 else ?T div R)"
    if "i < R" for i
    using len_ScatterArray [OF that, of data] by (simp add: shard_rows_def Let_def)
  have r: "?T mod R < R" using assms by simp
  have larger: "{i. i < R \<and> len (ScatterArray data R ! i) = ?T div R + 1} = {i. i < ?T mod R}"
    using size r by (auto split: if_splits)
  have "card {i. i < ?T mod R} = ?T mod R" by simp
  with larger have count: "card {i. i < R \<and> len (ScatterArray data R ! i) = ?T div R + 1} = ?T mod R"
    by simp
  have either: "len (ScatterArray data R ! i) = ?T div R \<or>
                len (ScatterArray data R ! i) = (?T + R - 1) div R" if "i < R" for i
    using size [OF that] ceil_div [OF assms, of ?T] by (auto split: if_splits)
  show ?thesis
    using size either larger count by (simp add: length_ScatterArray)
qed

theorem scatter_balanced_witness:
  "length (ScatterArray (GatherArray example_locals) 3) = 3 \<and>
   len (ScatterArray (GatherArray example_locals) 3 ! 0) = 2 \<and>
   len (ScatterArray (GatherArray example_locals) 3 ! 1) = 2 \<and>
   len (ScatterArray (GatherArray example_locals) 3 ! 2) = 1 \<and>
   card {i. i < 3 \<and> len (ScatterArray (GatherArray example_locals) 3 ! i) = 1 + 1} = 2"
proof -
  have h: "0 < (3::nat)" by simp
  have T: "len (GatherArray example_locals) = 5"
    by (simp add: len_def GatherArray_def example_locals_def)
  have d: "(5::nat) div 3 = 1" and m: "(5::nat) mod 3 = 2" by simp_all
  note b = scatter_balanced [OF h, of "GatherArray example_locals", unfolded T d m]
  from b have sz: "\<forall>i<3. len (ScatterArray (GatherArray example_locals) 3 ! i) =
                     (if i < 2 then 1 + 1 else 1)"
    by blast
  from b have c: "card {i. i < 3 \<and> len (ScatterArray (GatherArray example_locals) 3 ! i) = 1 + 1} = 2"
    by blast
  from b have "length (ScatterArray (GatherArray example_locals) 3) = 3" by blast
  with sz c show ?thesis by simp
qed

text \<open>
  C5: gather concatenates the contributions of the ranks by increasing rank id, keeping
  the row order of each; scatter cuts the rows of the gathered array into consecutive
  blocks in that order, the block of rank \<open>i\<close> starting where the blocks of the ranks
  below it end; so after a gather and a scatter with nothing in between, the shards of
  all ranks concatenated in rank order are the original rows in their order.
\<close>

theorem gather_scatter_roundtrip:
  "rows (GatherArray locals) = concat (map rows locals) \<and>
   (\<forall>i<length locals.
      rows (ScatterArray (GatherArray locals) (length locals) ! i) =
        take (shard_rows (len (GatherArray locals)) (length locals) i)
          (drop (sum_list (map (shard_rows (len (GatherArray locals)) (length locals)) [0..<i]))
             (rows (GatherArray locals)))) \<and>
   concat (map rows (ScatterArray (GatherArray locals) (length locals))) =
     concat (map rows locals)"
proof -
  let ?all = "GatherArray locals"
  let ?R = "length locals"
  have gathered: "rows ?all = concat (map rows locals)"
    by (simp add: GatherArray_def)
  have "concat (map rows (ScatterArray ?all ?R)) = rows ?all"
  proof (cases "?R = 0")
    case True
    then show ?thesis by (simp add: ScatterArray_def GatherArray_def)
  next
    case False
    then show ?thesis by (simp add: concat_ScatterArray)
  qed
  with gathered rows_ScatterArray [of _ ?R ?all] show ?thesis by simp
qed

theorem gather_scatter_roundtrip_witness:
  "rows (GatherArray example_locals) = [[Num 1], [Num 2], [Num 3], [Num 4], [Num 5]] \<and>
   rows (ScatterArray (GatherArray example_locals) 3 ! 0) = [[Num 1], [Num 2]] \<and>
   rows (ScatterArray (GatherArray example_locals) 3 ! 1) = [[Num 3], [Num 4]] \<and>
   rows (ScatterArray (GatherArray example_locals) 3 ! 2) = [[Num 5]] \<and>
   concat (map rows (ScatterArray (GatherArray example_locals) 3)) =
     [[Num 1], [Num 2], [Num 3], [Num 4], [Num 5]]"
proof -
  have n: "length example_locals = 3" by (simp add: example_locals_def)
  have c: "concat (map rows example_locals) = [[Num 1], [Num 2], [Num 3], [Num 4], [Num 5]]"
    by (simp add: example_locals_def)
  note r = gather_scatter_roundtrip [of example_locals, unfolded n c]
  from r have g: "rows (GatherArray example_locals) = [[Num 1], [Num 2], [Num 3], [Num 4], [Num 5]]"
    by blast
  then have T: "len (GatherArray example_locals) = 5" by (simp add: len_def)
  from r have b: "\<forall>i<3. rows (ScatterArray (GatherArray example_locals) 3 ! i) =
        take (shard_rows 5 3 i) (drop (sum_list (map (shard_rows 5 3) [0..<i]))
             [[Num 1], [Num 2], [Num 3], [Num 4], [Num 5]])"
    unfolding T g by blast
  have u0: "[0..<0] = []" and u1: "[0..<1] = [0]" and u2: "[0..<2] = [0, 1]"
    by (simp_all add: upt_rec)
  from b have "rows (ScatterArray (GatherArray example_locals) 3 ! 0) = [[Num 1], [Num 2]]"
    by (simp add: shard_rows_def)
  moreover from b have "rows (ScatterArray (GatherArray example_locals) 3 ! 1) = [[Num 3], [Num 4]]"
    by (simp add: shard_rows_def)
  moreover from b have "rows (ScatterArray (GatherArray example_locals) 3 ! 2) = [[Num 5]]"
    by (simp add: shard_rows_def u2)
  moreover from r have "concat (map rows (ScatterArray (GatherArray example_locals) 3)) =
     [[Num 1], [Num 2], [Num 3], [Num 4], [Num 5]]" by blast
  ultimately show ?thesis using g by simp
qed

section \<open>Properties of the derived columns\<close>

lemma field_index_None: "name \<notin> set ns \<Longrightarrow> field_index ns name = None"
  by (induction ns) auto

lemma field_index_in: "name \<in> set ns \<Longrightarrow> \<exists>j. field_index ns name = Some j"
  by (induction ns) auto

lemma field_index_Some:
  "field_index ns name = Some j \<Longrightarrow> j < length ns \<and> ns ! j = name"
  by (induction ns arbitrary: j) (auto split: if_splits)

lemma column_of_missing:
  "name \<notin> set (colnames data) \<Longrightarrow> column_of data name = Inl (MissingColumnError name)"
  by (simp add: column_of_def field_index_None)

lemma column_of_present:
  assumes "name \<in> set (colnames data)"
  obtains t column where "column_of data name = Inr (t, column)"
    and "getitem data name = Inr column" and "length column = len data"
    and "map_of (dtype data) name = Some t"
proof -
  from assms obtain j where j: "field_index (colnames data) name = Some j"
    using field_index_in by blast
  have first: "field_index (map fst xs) k = Some i \<Longrightarrow> map_of xs k = Some (snd (xs ! i))"
    for xs :: "(string \<times> ftype) list" and k i
    by (induction xs arbitrary: i) (auto split: if_splits)
  from j have 1: "column_of data name = Inr (snd (dtype data ! j), map (\<lambda>row. row ! j) (rows data))"
    and 2: "getitem data name = Inr (map (\<lambda>row. row ! j) (rows data))"
    by (simp_all add: column_of_def getitem_def)
  have 3: "length (map (\<lambda>row. row ! j) (rows data)) = len data"
    by (simp add: len_def)
  from j have 4: "map_of (dtype data) name = Some (snd (dtype data ! j))"
    unfolding colnames_def by (rule first)
  from 1 2 3 4 show thesis by (rule that)
qed

lemma transpose3:
  assumes "length xs = n" and "length ys = n" and "length zs = n"
  shows "transpose [xs, ys, zs] = map (\<lambda>i. [xs ! i, ys ! i, zs ! i]) [0..<n]"
proof -
  have rect: "length ([xs, ys, zs] ! i) = n" if "i < length [xs, ys, zs]" for i
    using that assms by (cases i) (auto simp: nth_Cons split: nat.splits)
  have u: "[0..<3] = [0, 1, 2]" by (simp add: upt_rec)
  have "transpose [xs, ys, zs] =
          map (\<lambda>i. map (\<lambda>j. [xs, ys, zs] ! j ! i) [0..<length [xs, ys, zs]]) [0..<n]"
    by (rule transpose_rectangle) (simp, rule rect)
  then show ?thesis by (simp add: u)
qed

lemma astype_same: "astype number_text t t c = c"
  by (cases t) simp_all

lemma promote_same: "promote t t = t"
  by (cases t) simp_all

lemma vstack_three:
  "vstack number_text [(ta, as), (tb, bs), (tc, cs)] =
     [map (astype number_text ta (result_type [ta, tb, tc])) as,
      map (astype number_text tb (result_type [ta, tb, tc])) bs,
      map (astype number_text tc (result_type [ta, tb, tc])) cs]"
  by (simp add: vstack_def)

lemma stack_three:
  assumes "a \<in> set (colnames src)" and "b \<in> set (colnames src)" and "c \<in> set (colnames src)"
  shows "\<exists>ta as tb bs tc cs vs.
           column_of src a = Inr (ta, as) \<and> getitem src a = Inr as \<and>
           column_of src b = Inr (tb, bs) \<and> getitem src b = Inr bs \<and>
           column_of src c = Inr (tc, cs) \<and> getitem src c = Inr cs \<and>
           (case column_of src a of Inl e \<Rightarrow> Inl e | Inr x \<Rightarrow>
              (case column_of src b of Inl e \<Rightarrow> Inl e | Inr y \<Rightarrow>
                 (case column_of src c of Inl e \<Rightarrow> Inl e
                  | Inr z \<Rightarrow> Inr (transpose (vstack number_text [x, y, z])))))
             = Inr vs \<and>
           length vs = len src \<and>
           (\<forall>i<len src. vs ! i =
              [astype number_text ta (result_type [ta, tb, tc]) (as ! i),
               astype number_text tb (result_type [ta, tb, tc]) (bs ! i),
               astype number_text tc (result_type [ta, tb, tc]) (cs ! i)]) \<and>
           (ta = tb \<and> tb = tc \<longrightarrow> (\<forall>i<len src. vs ! i = [as ! i, bs ! i, cs ! i]))"
proof -
  from assms(1) obtain ta as where a: "column_of src a = Inr (ta, as)" "getitem src a = Inr as"
    "length as = len src"
    by (rule column_of_present)
  from assms(2) obtain tb bs where b: "column_of src b = Inr (tb, bs)" "getitem src b = Inr bs"
    "length bs = len src"
    by (rule column_of_present)
  from assms(3) obtain tc cs where c: "column_of src c = Inr (tc, cs)" "getitem src c = Inr cs"
    "length cs = len src"
    by (rule column_of_present)
  let ?T = "result_type [ta, tb, tc]"
  let ?vs = "transpose (vstack number_text [(ta, as), (tb, bs), (tc, cs)])"
  have "?vs = map (\<lambda>i. [map (astype number_text ta ?T) as ! i,
                          map (astype number_text tb ?T) bs ! i,
                          map (astype number_text tc ?T) cs ! i]) [0..<len src]"
    unfolding vstack_three using a(3) b(3) c(3) by (intro transpose3) simp_all
  then have rows: "length ?vs = len src"
    "\<forall>i<len src. ?vs ! i =
       [astype number_text ta ?T (as ! i), astype number_text tb ?T (bs ! i),
        astype number_text tc ?T (cs ! i)]"
    using a(3) b(3) c(3) by simp_all
  have same: "ta = tb \<and> tb = tc \<longrightarrow> (\<forall>i<len src. ?vs ! i = [as ! i, bs ! i, cs ! i])"
  proof (intro impI)
    assume "ta = tb \<and> tb = tc"
    then have "tb = ta" "tc = ta" by simp_all
    with rows(2) show "\<forall>i<len src. ?vs ! i = [as ! i, bs ! i, cs ! i]"
      by (simp add: promote_same astype_same)
  qed
  have result: "(case column_of src a of Inl e \<Rightarrow> Inl e | Inr x \<Rightarrow>
              (case column_of src b of Inl e \<Rightarrow> Inl e | Inr y \<Rightarrow>
                 (case column_of src c of Inl e \<Rightarrow> Inl e
                  | Inr z \<Rightarrow> Inr (transpose (vstack number_text [x, y, z])))))
             = Inr ?vs"
    using a(1) b(1) c(1) by simp
  show ?thesis
    by (intro exI conjI)
      (rule a(1), rule a(2), rule b(1), rule b(2), rule c(1), rule c(2), rule result,
       rule rows(1), rule rows(2), rule same)
qed

lemma stack_missing:
  assumes "a \<notin> set (colnames src) \<or> b \<notin> set (colnames src) \<or> c \<notin> set (colnames src)"
  shows "\<exists>n. n \<in> {a, b, c} \<and> n \<notin> set (colnames src) \<and>
           (case column_of src a of Inl e \<Rightarrow> Inl e | Inr x \<Rightarrow>
              (case column_of src b of Inl e \<Rightarrow> Inl e | Inr y \<Rightarrow>
                 (case column_of src c of Inl e \<Rightarrow> Inl e
                  | Inr z \<Rightarrow> Inr (transpose (vstack number_text [x, y, z])))))
             = Inl (MissingColumnError n)"
proof (cases "a \<in> set (colnames src)")
  case False
  then show ?thesis by (auto simp: column_of_missing)
next
  case a: True
  then obtain ta as where as: "column_of src a = Inr (ta, as)" by (rule column_of_present)
  show ?thesis
  proof (cases "b \<in> set (colnames src)")
    case False
    then show ?thesis using as by (auto simp: column_of_missing)
  next
    case True
    then obtain tb bs where bs: "column_of src b = Inr (tb, bs)" by (rule column_of_present)
    from a True assms have "c \<notin> set (colnames src)" by simp
    then show ?thesis using as bs by (auto simp: column_of_missing)
  qed
qed

lemma quantum_step:
  "0 < k \<Longrightarrow> quantum k m = (if m < 2 ^ 53 then 1 else 2 * quantum (k - 1) (m div 2))"
  by (cases k) simp_all

lemma nearest_float64_example: "nearest_float64 9007199254740993 = 9007199254740992"
proof -
  have "quantum 10 4503599627370496 = 1"
    by (subst quantum_step) simp_all
  then have q: "quantum 11 9007199254740993 = 2"
    by (subst quantum_step) simp_all
  have r: "round_half_even 9007199254740993 2 = 4503599627370496"
    by (simp add: round_half_even_def Let_def)
  show ?thesis
    by (simp add: nearest_float64_def Let_def q r)
qed

lemma Position_present:
  assumes "''x'' \<in> set (colnames src)" "''y'' \<in> set (colnames src)" "''z'' \<in> set (colnames src)"
  shows "\<exists>tx xs ty ys tz zs ps.
           column_of src ''x'' = Inr (tx, xs) \<and> getitem src ''x'' = Inr xs \<and>
           column_of src ''y'' = Inr (ty, ys) \<and> getitem src ''y'' = Inr ys \<and>
           column_of src ''z'' = Inr (tz, zs) \<and> getitem src ''z'' = Inr zs \<and>
           Position number_text src = Inr ps \<and> length ps = len src \<and>
           (\<forall>i<len src. ps ! i =
              [astype number_text tx (result_type [tx, ty, tz]) (xs ! i),
               astype number_text ty (result_type [tx, ty, tz]) (ys ! i),
               astype number_text tz (result_type [tx, ty, tz]) (zs ! i)]) \<and>
           (tx = ty \<and> ty = tz \<longrightarrow> (\<forall>i<len src. ps ! i = [xs ! i, ys ! i, zs ! i]))"
  unfolding Position_def using assms by (rule stack_three)

lemma Velocity_present:
  assumes "''vx'' \<in> set (colnames src)" "''vy'' \<in> set (colnames src)" "''vz'' \<in> set (colnames src)"
  shows "\<exists>tx xs ty ys tz zs vs.
           column_of src ''vx'' = Inr (tx, xs) \<and> getitem src ''vx'' = Inr xs \<and>
           column_of src ''vy'' = Inr (ty, ys) \<and> getitem src ''vy'' = Inr ys \<and>
           column_of src ''vz'' = Inr (tz, zs) \<and> getitem src ''vz'' = Inr zs \<and>
           Velocity number_text src = Inr vs \<and> length vs = len src \<and>
           (\<forall>i<len src. vs ! i =
              [astype number_text tx (result_type [tx, ty, tz]) (xs ! i),
               astype number_text ty (result_type [tx, ty, tz]) (ys ! i),
               astype number_text tz (result_type [tx, ty, tz]) (zs ! i)]) \<and>
           (tx = ty \<and> ty = tz \<longrightarrow> (\<forall>i<len src. vs ! i = [xs ! i, ys ! i, zs ! i]))"
  unfolding Velocity_def using assms by (rule stack_three)

lemma Position_missing:
  assumes "''x'' \<notin> set (colnames src) \<or> ''y'' \<notin> set (colnames src) \<or> ''z'' \<notin> set (colnames src)"
  shows "\<exists>n. n \<in> {''x'', ''y'', ''z''} \<and> n \<notin> set (colnames src) \<and>
         Position number_text src = Inl (MissingColumnError n)"
  unfolding Position_def using assms by (rule stack_missing)

lemma Velocity_missing:
  assumes "''vx'' \<notin> set (colnames src) \<or> ''vy'' \<notin> set (colnames src) \<or> ''vz'' \<notin> set (colnames src)"
  shows "\<exists>n. n \<in> {''vx'', ''vy'', ''vz''} \<and> n \<notin> set (colnames src) \<and>
         Velocity number_text src = Inl (MissingColumnError n)"
  unfolding Velocity_def using assms by (rule stack_missing)

text \<open>
  C6, amended: on a shard whose fields include \<open>x\<close>, \<open>y\<close> and \<open>z\<close>, \<open>Position\<close> gives one
  3-vector per row, in row order; row \<open>i\<close> holds \<open>x[i]\<close>, \<open>y[i]\<close> and \<open>z[i]\<close>, each cast
  from the element type of its column to the one element type the three are promoted to.
  When the three columns have the same element type, row \<open>i\<close> is \<open>(x[i], y[i], z[i])\<close>
  itself. On a shard that lacks one of the three fields the accessor fails with
  \<open>MissingColumnError\<close>, naming a field that is absent. The same holds for \<open>Velocity\<close>
  over \<open>vx\<close>, \<open>vy\<close>, \<open>vz\<close>.
\<close>

theorem Position_Velocity:
  "(''x'' \<in> set (colnames src) \<and> ''y'' \<in> set (colnames src) \<and> ''z'' \<in> set (colnames src) \<longrightarrow>
      (\<exists>tx xs ty ys tz zs ps.
         column_of src ''x'' = Inr (tx, xs) \<and> getitem src ''x'' = Inr xs \<and>
         column_of src ''y'' = Inr (ty, ys) \<and> getitem src ''y'' = Inr ys \<and>
         column_of src ''z'' = Inr (tz, zs) \<and> getitem src ''z'' = Inr zs \<and>
         Position number_text src = Inr ps \<and> length ps = len src \<and>
         (\<forall>i<len src. ps ! i =
            [astype number_text tx (result_type [tx, ty, tz]) (xs ! i),
             astype number_text ty (result_type [tx, ty, tz]) (ys ! i),
             astype number_text tz (result_type [tx, ty, tz]) (zs ! i)]) \<and>
         (tx = ty \<and> ty = tz \<longrightarrow> (\<forall>i<len src. ps ! i = [xs ! i, ys ! i, zs ! i])))) \<and>
   (''x'' \<notin> set (colnames src) \<or> ''y'' \<notin> set (colnames src) \<or> ''z'' \<notin> set (colnames src) \<longrightarrow>
      (\<exists>n. n \<in> {''x'', ''y'', ''z''} \<and> n \<notin> set (colnames src) \<and>
         Position number_text src = Inl (MissingColumnError n))) \<and>
   (''vx'' \<in> set (colnames src) \<and> ''vy'' \<in> set (colnames src) \<and> ''vz'' \<in> set (colnames src) \<longrightarrow>
      (\<exists>tx xs ty ys tz zs vs.
         column_of src ''vx'' = Inr (tx, xs) \<and> getitem src ''vx'' = Inr xs \<and>
         column_of src ''vy'' = Inr (ty, ys) \<and> getitem src ''vy'' = Inr ys \<and>
         column_of src ''vz'' = Inr (tz, zs) \<and> getitem src ''vz'' = Inr zs \<and>
         Velocity number_text src = Inr vs \<and> length vs = len src \<and>
         (\<forall>i<len src. vs ! i =
            [astype number_text tx (result_type [tx, ty, tz]) (xs ! i),
             astype number_text ty (result_type [tx, ty, tz]) (ys ! i),
             astype number_text tz (result_type [tx, ty, tz]) (zs ! i)]) \<and>
         (tx = ty \<and> ty = tz \<longrightarrow> (\<forall>i<len src. vs ! i = [xs ! i, ys ! i, zs ! i])))) \<and>
   (''vx'' \<notin> set (colnames src) \<or> ''vy'' \<notin> set (colnames src) \<or> ''vz'' \<notin> set (colnames src) \<longrightarrow>
      (\<exists>n. n \<in> {''vx'', ''vy'', ''vz''} \<and> n \<notin> set (colnames src) \<and>
         Velocity number_text src = Inl (MissingColumnError n)))"
proof (intro conjI impI)
  assume "''x'' \<in> set (colnames src) \<and> ''y'' \<in> set (colnames src) \<and> ''z'' \<in> set (colnames src)"
  then have "''x'' \<in> set (colnames src)" "''y'' \<in> set (colnames src)" "''z'' \<in> set (colnames src)"
    by simp_all
  then show "\<exists>tx xs ty ys tz zs ps.
         column_of src ''x'' = Inr (tx, xs) \<and> getitem src ''x'' = Inr xs \<and>
         column_of src ''y'' = Inr (ty, ys) \<and> getitem src ''y'' = Inr ys \<and>
         column_of src ''z'' = Inr (tz, zs) \<and> getitem src ''z'' = Inr zs \<and>
         Position number_text src = Inr ps \<and> length ps = len src \<and>
         (\<forall>i<len src. ps ! i =
            [astype number_text tx (result_type [tx, ty, tz]) (xs ! i),
             astype number_text ty (result_type [tx, ty, tz]) (ys ! i),
             astype number_text tz (result_type [tx, ty, tz]) (zs ! i)]) \<and>
         (tx = ty \<and> ty = tz \<longrightarrow> (\<forall>i<len src. ps ! i = [xs ! i, ys ! i, zs ! i]))"
    by (rule Position_present)
next
  assume "''x'' \<notin> set (colnames src) \<or> ''y'' \<notin> set (colnames src) \<or> ''z'' \<notin> set (colnames src)"
  then show "\<exists>n. n \<in> {''x'', ''y'', ''z''} \<and> n \<notin> set (colnames src) \<and>
         Position number_text src = Inl (MissingColumnError n)"
    by (rule Position_missing)
next
  assume "''vx'' \<in> set (colnames src) \<and> ''vy'' \<in> set (colnames src) \<and> ''vz'' \<in> set (colnames src)"
  then have "''vx'' \<in> set (colnames src)" "''vy'' \<in> set (colnames src)" "''vz'' \<in> set (colnames src)"
    by simp_all
  then show "\<exists>tx xs ty ys tz zs vs.
         column_of src ''vx'' = Inr (tx, xs) \<and> getitem src ''vx'' = Inr xs \<and>
         column_of src ''vy'' = Inr (ty, ys) \<and> getitem src ''vy'' = Inr ys \<and>
         column_of src ''vz'' = Inr (tz, zs) \<and> getitem src ''vz'' = Inr zs \<and>
         Velocity number_text src = Inr vs \<and> length vs = len src \<and>
         (\<forall>i<len src. vs ! i =
            [astype number_text tx (result_type [tx, ty, tz]) (xs ! i),
             astype number_text ty (result_type [tx, ty, tz]) (ys ! i),
             astype number_text tz (result_type [tx, ty, tz]) (zs ! i)]) \<and>
         (tx = ty \<and> ty = tz \<longrightarrow> (\<forall>i<len src. vs ! i = [xs ! i, ys ! i, zs ! i]))"
    by (rule Velocity_present)
next
  assume "''vx'' \<notin> set (colnames src) \<or> ''vy'' \<notin> set (colnames src) \<or> ''vz'' \<notin> set (colnames src)"
  then show "\<exists>n. n \<in> {''vx'', ''vy'', ''vz''} \<and> n \<notin> set (colnames src) \<and>
         Velocity number_text src = Inl (MissingColumnError n)"
    by (rule Velocity_missing)
qed

lemma two_rows: "length vs = 2 \<Longrightarrow> vs ! 0 = a \<Longrightarrow> vs ! 1 = b \<Longrightarrow> vs = [a, b]"
  by (cases vs; cases "tl vs") auto

theorem Position_Velocity_witness:
  "Position no_number_text example_shard = Inr [[Num 1, Num 3, Num 5], [Num 2, Num 4, Num 6]] \<and>
   Velocity no_number_text example_shard = Inr [[Num 7, Num 9, Num 11], [Num 8, Num 10, Num 12]] \<and>
   Position no_number_text example_shard_without_z = Inl (MissingColumnError ''z'') \<and>
   Velocity no_number_text example_shard_without_z = Inl (MissingColumnError ''vz'')"
proof -
  have names: "colnames example_shard = [''x'', ''y'', ''z'', ''vx'', ''vy'', ''vz'']"
    and n: "len example_shard = 2"
    by (simp_all add: colnames_def len_def example_shard_def)
  have cols:
    "column_of example_shard ''x'' = Inr (Float64T, [Num 1, Num 2])"
    "column_of example_shard ''y'' = Inr (Float64T, [Num 3, Num 4])"
    "column_of example_shard ''z'' = Inr (Float64T, [Num 5, Num 6])"
    "column_of example_shard ''vx'' = Inr (Float64T, [Num 7, Num 8])"
    "column_of example_shard ''vy'' = Inr (Float64T, [Num 9, Num 10])"
    "column_of example_shard ''vz'' = Inr (Float64T, [Num 11, Num 12])"
    by (simp_all add: column_of_def names) (simp_all add: example_shard_def)
  note full = Position_Velocity [of example_shard no_number_text, unfolded names n cols]
  from full obtain ps where ps: "Position no_number_text example_shard = Inr ps" "length ps = 2"
    "\<forall>i<2. ps ! i = [[Num 1, Num 2] ! i, [Num 3, Num 4] ! i, [Num 5, Num 6] ! i]"
    by auto
  from ps(3) have "ps ! 0 = [Num 1, Num 3, Num 5]" "ps ! 1 = [Num 2, Num 4, Num 6]"
    by simp_all
  with ps(2) have p: "ps = [[Num 1, Num 3, Num 5], [Num 2, Num 4, Num 6]]"
    by (simp add: two_rows)
  from full obtain vs where vs: "Velocity no_number_text example_shard = Inr vs" "length vs = 2"
    "\<forall>i<2. vs ! i = [[Num 7, Num 8] ! i, [Num 9, Num 10] ! i, [Num 11, Num 12] ! i]"
    by auto
  from vs(3) have "vs ! 0 = [Num 7, Num 9, Num 11]" "vs ! 1 = [Num 8, Num 10, Num 12]"
    by simp_all
  with vs(2) have v: "vs = [[Num 7, Num 9, Num 11], [Num 8, Num 10, Num 12]]"
    by (simp add: two_rows)
  have names': "colnames example_shard_without_z = [''x'', ''y'', ''vx'', ''vy'']"
    by (simp add: colnames_def example_shard_without_z_def)
  note part = Position_Velocity [of example_shard_without_z no_number_text, unfolded names']
  from part have "Position no_number_text example_shard_without_z = Inl (MissingColumnError ''z'')"
    by auto
  moreover from part
  have "Velocity no_number_text example_shard_without_z = Inl (MissingColumnError ''vz'')"
    by auto
  ultimately show ?thesis using ps(1) vs(1) p v by simp
qed

text \<open>
  C6 as stated fails: with the integer \<open>2 ^ 53 + 1\<close> in \<open>x\<close> beside float columns \<open>y\<close>
  and \<open>z\<close>, the stacked matrix is of floats, and the first component of the row is the
  float \<open>2 ^ 53\<close>, not \<open>x[0]\<close>.
\<close>

theorem Position_Velocity_counterexample:
  "getitem example_shard_mixed ''x'' = Inr [Int64 9007199254740993] \<and>
   getitem example_shard_mixed ''y'' = Inr [Num 1] \<and>
   getitem example_shard_mixed ''z'' = Inr [Num 2] \<and>
   Position no_number_text example_shard_mixed = Inr [[Num 9007199254740992, Num 1, Num 2]] \<and>
   Position no_number_text example_shard_mixed \<noteq> Inr [[Int64 9007199254740993, Num 1, Num 2]]"
proof -
  have names: "colnames example_shard_mixed = [''x'', ''y'', ''z'']"
    by (simp add: colnames_def example_shard_mixed_def)
  have cols: "getitem example_shard_mixed ''x'' = Inr [Int64 9007199254740993]"
    "getitem example_shard_mixed ''y'' = Inr [Num 1]"
    "getitem example_shard_mixed ''z'' = Inr [Num 2]"
    by (simp_all add: getitem_def names) (simp_all add: example_shard_mixed_def)
  have typed: "column_of example_shard_mixed ''x'' = Inr (Int64T, [Int64 9007199254740993])"
    "column_of example_shard_mixed ''y'' = Inr (Float64T, [Num 1])"
    "column_of example_shard_mixed ''z'' = Inr (Float64T, [Num 2])"
    by (simp_all add: column_of_def names) (simp_all add: example_shard_mixed_def)
  have "Position no_number_text example_shard_mixed = Inr [[Num 9007199254740992, Num 1, Num 2]]"
    by (simp add: Position_def typed vstack_def nearest_float64_example)
  with cols show ?thesis by simp
qed

section \<open>The example construction, evaluated\<close>

lemma upt2: "[0..<2] = [0, 1]"
  by (simp add: upt_rec)

lemma example_gathered:
  "remove_object_dtypes (GatherArray example_halos) =
     \<lparr>dtype = [(''halo_mvir'', Float64T), (''gal_type'', UnicodeT 10)],
      rows = [[Num 10, Txt ''centrals''], [Num 20, Txt ''satellites''],
              [Num 30, Txt ''centrals'']]\<rparr>"
  by (simp add: example_halos_def GatherArray_def remove_object_dtypes_def colnames_def
      convert_if_object_def getitem_def setitem_def astype_U_def to_text_def text_width_def)

lemma example_normal:
  "remove_object_dtypes
     \<lparr>dtype = [(''halo_mvir'', Float64T), (''gal_type'', UnicodeT 10)], rows = rs\<rparr> =
     \<lparr>dtype = [(''halo_mvir'', Float64T), (''gal_type'', UnicodeT 10)], rows = rs\<rparr>"
  by (simp add: remove_object_dtypes_def colnames_def convert_if_object_def getitem_def)

lemma example_scatter:
  "ScatterArray
     \<lparr>dtype = d, rows = [r1, r2, r3]\<rparr> 2 =
     [\<lparr>dtype = d, rows = [r1, r2]\<rparr>, \<lparr>dtype = d, rows = [r3]\<rparr>]"
  by (simp add: ScatterArray_def len_def upt2 shard_rows_def)

lemma example_makesource:
  assumes "a ''seed'' = Some (IntV 1)"
  shows "makesource
     \<lparr>halo_table = example_halos, cosmo = c, comm_size = 2, attrs = a,
      mass = ''halo_mvir'', radius = r,
      model = \<lparr>param_dict = pd, transform = example_transform, mock = None\<rparr>,
      source = [], use_cache = False, generation = 0\<rparr> w
   = (Inr (source example_catalog,
        \<lparr>halo_table = halo_table example_catalog, cosmo = c, comm_size = 2, attrs = a,
         mass = ''halo_mvir'', radius = r,
         model = \<lparr>param_dict = pd, transform = example_transform,
                  mock = mock (model example_catalog)\<rparr>,
         source = [], use_cache = False, generation = 0\<rparr>),
      w\<lparr>calls := calls w @ [Call_GatherArray, Call_remove_object_dtypes, Call_populate_mock,
               Call_remove_object_dtypes, Call_ScatterArray]\<rparr>)"
  using assms
  apply (simp add: makesource_def Let_def example_gathered populate_mock_def example_transform_def
      take_galaxy_table_def example_normal log_populated_stats_def len_def getitem_def colnames_def
      example_scatter log_call_def example_catalog_def)
  apply (simp add: example_halos_def)
  done

lemma example_attrs:
  "init_attrs (FloatV 100) ''vir'' (FloatV 0) (ListV [IntV 0, IntV 0, FloatV 0]) s
     example_params [(''h'', FloatV 1)] ''seed'' = Some s"
  "init_attrs (FloatV 100) ''vir'' (FloatV 0) (ListV [IntV 0, IntV 0, FloatV 0]) s
     example_params [(''h'', FloatV 1)] ''logMmin'' = Some (FloatV 12)"
  "init_attrs (FloatV 100) ''vir'' (FloatV 0) (ListV [IntV 0, IntV 0, FloatV 0]) s
     example_params [(''h'', FloatV 1)] ''alpha'' = Some (FloatV 2)"
  by (simp_all add: init_attrs_def dict_update_def example_params_def)

lemma example_construction:
  "HODBase_init example_makemodel example_world example_halos (FloatV 100) [(''h'', FloatV 1)]
     (FloatV 0) ''vir'' None (IntV 1) False example_params
   = (Inr example_catalog, example_world_built)"
proof -
  have n: "length example_halos = 2" by (simp add: example_halos_def)
  have names: "map colnames example_halos = [[''halo_mvir'', ''gal_type''], [''halo_mvir'', ''gal_type'']]"
    by (simp add: example_halos_def colnames_def)
  have size: "csize (Array_init c (source example_catalog) False) = 3" for c
    by (simp add: csize_def Array_init_def example_catalog_def len_def)
  show ?thesis
    apply (simp add: HODBase_init_def Let_def example_makemodel_def example_attrs
        get_halo_mass_key_def get_halo_boundary_key_def n names
        example_makesource size)
    apply (simp add: Array_init_def log_call_def example_world_def example_world_built_def
        example_catalog_def)
    done
qed

section \<open>Properties of repopulation\<close>

lemma update_keeps_keys:
  "name \<in> set (map fst pd) \<Longrightarrow> map fst (AList.update name v pd) = map fst pd"
  by (simp add: update_keys)

lemma update_params_unknown:
  assumes "\<exists>name\<in>set (map fst params). name \<notin> set (map fst pd)"
  shows "\<exists>name pd'. update_params params pd = (Some (UnknownParameterError name (map fst pd)), pd') \<and>
           name \<in> set (map fst params) \<and> name \<notin> set (map fst pd)"
  using assms
proof (induction params arbitrary: pd)
  case Nil
  then show ?case by simp
next
  case (Cons item rest)
  obtain name v where item: "item = (name, v)" by (cases item)
  show ?case
  proof (cases "name \<in> set (map fst pd)")
    case False
    then show ?thesis using item by auto
  next
    case True
    then have keys: "map fst (AList.update name v pd) = map fst pd"
      by (rule update_keeps_keys)
    from Cons.prems True item
    have "\<exists>n\<in>set (map fst rest). n \<notin> set (map fst (AList.update name v pd))"
      unfolding keys by auto
    from Cons.IH [OF this] show ?thesis
      using True item unfolding keys by auto
  qed
qed

lemma update_params_prefix:
  assumes "\<forall>k\<in>set (map fst before). k \<in> set (map fst pd)"
    and "name \<notin> set (map fst pd)"
  shows "update_params (before @ (name, v) # rest) pd =
           (Some (UnknownParameterError name (map fst pd)),
            fold (\<lambda>(k, x). AList.update k x) before pd)"
  using assms
proof (induction before arbitrary: pd)
  case Nil
  then show ?case by simp
next
  case (Cons item before)
  obtain k x where item: "item = (k, x)" by (cases item)
  from Cons.prems item have k: "k \<in> set (map fst pd)" by simp
  then have keys: "map fst (AList.update k x pd) = map fst pd"
    by (rule update_keeps_keys)
  have "\<forall>k'\<in>set (map fst before). k' \<in> set (map fst (AList.update k x pd))"
    and "name \<notin> set (map fst (AList.update k x pd))"
    using Cons.prems unfolding keys by simp_all
  then have "update_params (before @ (name, v) # rest) (AList.update k x pd) =
          (Some (UnknownParameterError name (map fst (AList.update k x pd))),
           fold (\<lambda>(k, x). AList.update k x) before (AList.update k x pd))"
    by (rule Cons.IH)
  then show ?case using k item by (simp add: keys)
qed

lemma repopulate_raised:
  assumes "update_params params (param_dict (model self)) = (Some e, pd)"
  shows "repopulate self w seed params =
           (Some e, self\<lparr>attrs := (attrs self)(''seed'' \<mapsto> seed),
                         model := (model self)\<lparr>param_dict := pd\<rparr>\<rparr>, w)"
  using assms by (simp add: repopulate_def Let_def)

text \<open>
  C2: a call to \<open>repopulate\<close> that supplies a parameter name the model does not have fails
  with \<open>UnknownParameterError\<close> for such a name; the shards and the generation counter
  are as before, and the world is unchanged: no call at all was made, so the error is
  raised before any collective communication.
\<close>

theorem repopulate_unknown_parameter:
  assumes "\<exists>name\<in>set (map fst params). name \<notin> set (map fst (param_dict (model self)))"
  shows "\<exists>name. fst (repopulate self w seed params) =
             Some (UnknownParameterError name (map fst (param_dict (model self)))) \<and>
           name \<in> set (map fst params) \<and> name \<notin> set (map fst (param_dict (model self))) \<and>
           source (fst (snd (repopulate self w seed params))) = source self \<and>
           generation (fst (snd (repopulate self w seed params))) = generation self \<and>
           snd (snd (repopulate self w seed params)) = w"
proof -
  from update_params_unknown [OF assms] obtain name pd where
    u: "update_params params (param_dict (model self)) =
          (Some (UnknownParameterError name (map fst (param_dict (model self)))), pd)"
    and n: "name \<in> set (map fst params)" "name \<notin> set (map fst (param_dict (model self)))"
    by blast
  from repopulate_raised [OF u, of w seed] n show ?thesis by auto
qed

theorem repopulate_unknown_parameter_witness:
  "fst (repopulate example_catalog example_world_built (IntV 7) [(''not_a_param'', FloatV 0)]) =
     Some (UnknownParameterError ''not_a_param'' [''logMmin'', ''alpha'']) \<and>
   source (fst (snd (repopulate example_catalog example_world_built (IntV 7)
      [(''not_a_param'', FloatV 0)]))) = source example_catalog \<and>
   generation (fst (snd (repopulate example_catalog example_world_built (IntV 7)
      [(''not_a_param'', FloatV 0)]))) = 1 \<and>
   calls (snd (snd (repopulate example_catalog example_world_built (IntV 7)
      [(''not_a_param'', FloatV 0)]))) = calls example_world_built"
proof -
  have keys: "map fst (param_dict (model example_catalog)) = [''logMmin'', ''alpha'']"
    by (simp add: example_catalog_def)
  have h: "\<exists>name\<in>set (map fst [(''not_a_param'', FloatV 0)]).
             name \<notin> set (map fst (param_dict (model example_catalog)))"
    by (simp add: keys)
  have g: "generation example_catalog = 1" by (simp add: example_catalog_def)
  from repopulate_unknown_parameter [OF h, of example_world_built "IntV 7"]
  show ?thesis unfolding keys g by auto
qed

text \<open>
  C9: whatever else a call to \<open>repopulate\<close> does, and whether it succeeds or raises,
  the stored attribute \<open>seed\<close> is afterwards the seed argument of the call; with the
  seed omitted it is \<open>None\<close>, the seed stored before being discarded, also when the call
  fails on an unknown parameter name.
\<close>

theorem repopulate_overwrites_seed:
  "attrs (fst (snd (repopulate self w seed params))) ''seed'' = Some seed \<and>
   attrs (fst (snd (repopulate self w NoneV params))) ''seed'' = Some NoneV"
proof -
  have "attrs (fst (snd (repopulate self w s params))) ''seed'' = Some s" for s
    by (simp add: repopulate_def Let_def Array_init_def
        split: prod.splits option.splits sum.splits)
  then show ?thesis by simp
qed

theorem repopulate_overwrites_seed_witness:
  "attrs example_catalog ''seed'' = Some (IntV 1) \<and>
   fst (repopulate example_catalog example_world_built NoneV [(''not_a_param'', FloatV 0)]) =
     Some (UnknownParameterError ''not_a_param'' [''logMmin'', ''alpha'']) \<and>
   attrs (fst (snd (repopulate example_catalog example_world_built NoneV
      [(''not_a_param'', FloatV 0)]))) ''seed'' = Some NoneV"
proof -
  have "attrs example_catalog ''seed'' = Some (IntV 1)"
    by (simp add: example_catalog_def example_attrs)
  moreover have "fst (repopulate example_catalog example_world_built NoneV
      [(''not_a_param'', FloatV 0)]) =
     Some (UnknownParameterError ''not_a_param'' [''logMmin'', ''alpha''])"
    by (simp add: repopulate_def Let_def example_catalog_def)
  ultimately show ?thesis
    using repopulate_overwrites_seed [of example_catalog example_world_built NoneV
        "[(''not_a_param'', FloatV 0)]"]
    by simp
qed

text \<open>
  C10: when \<open>repopulate\<close> is given parameters of which one is unknown, those iterated
  before it, all known, are already stored in the model's parameter dictionary when the
  error is raised: the update is not atomic, and after the failure the dictionary can
  differ from what it was before the call.
\<close>

theorem repopulate_not_atomic:
  assumes "\<forall>k\<in>set (map fst before). k \<in> set (map fst (param_dict (model self)))"
    and "name \<notin> set (map fst (param_dict (model self)))"
  shows "fst (repopulate self w seed (before @ (name, v) # rest)) =
           Some (UnknownParameterError name (map fst (param_dict (model self)))) \<and>
         param_dict (model (fst (snd (repopulate self w seed (before @ (name, v) # rest))))) =
           fold (\<lambda>(k, x). AList.update k x) before (param_dict (model self))"
  using repopulate_raised [OF update_params_prefix [OF assms, of v rest], of w seed]
  by simp

theorem repopulate_not_atomic_witness:
  "param_dict (model example_catalog) = [(''logMmin'', FloatV 12), (''alpha'', FloatV 2)] \<and>
   fst (repopulate example_catalog example_world_built NoneV
      ([(''alpha'', FloatV 3)] @ (''not_a_param'', FloatV 0) # [(''logMmin'', FloatV 5)])) =
     Some (UnknownParameterError ''not_a_param'' [''logMmin'', ''alpha'']) \<and>
   param_dict (model (fst (snd (repopulate example_catalog example_world_built NoneV
      ([(''alpha'', FloatV 3)] @ (''not_a_param'', FloatV 0) # [(''logMmin'', FloatV 5)]))))) =
     [(''logMmin'', FloatV 12), (''alpha'', FloatV 3)]"
proof -
  have pd: "param_dict (model example_catalog) = [(''logMmin'', FloatV 12), (''alpha'', FloatV 2)]"
    by (simp add: example_catalog_def)
  have h1: "\<forall>k\<in>set (map fst [(''alpha'', FloatV 3)]).
              k \<in> set (map fst (param_dict (model example_catalog)))"
    and h2: "''not_a_param'' \<notin> set (map fst (param_dict (model example_catalog)))"
    by (simp_all add: pd)
  from repopulate_not_atomic [OF h1 h2, of example_world_built NoneV "FloatV 0"
      "[(''logMmin'', FloatV 5)]"]
  show ?thesis unfolding pd by simp
qed

section \<open>Properties of construction\<close>

lemma makesource_keeps_defaults:
  "default_haloprop_list_inherited_by_mock (snd (makesource self w)) =
     default_haloprop_list_inherited_by_mock w"
  by (simp add: makesource_def Let_def log_call_def
      split: prod.splits option.splits sum.splits)

lemma HODBase_init_defaults:
  "default_haloprop_list_inherited_by_mock
     (snd (HODBase_init makemodel w halos Lbox cosmology redshift mdef rsd seed cache params)) =
   map colnames halos"
proof -
  have "default_haloprop_list_inherited_by_mock (snd (makesource self w')) = map colnames halos"
    if "default_haloprop_list_inherited_by_mock w' = map colnames halos" for self w'
    using that by (simp add: makesource_keeps_defaults)
  then have m: "default_haloprop_list_inherited_by_mock w2 = map colnames halos"
    if "makesource self w' = (r, w2)" "default_haloprop_list_inherited_by_mock w' = map colnames halos"
    for self w' r w2
    using that by (metis snd_conv)
  show ?thesis
    by (auto simp: HODBase_init_def Let_def log_call_def
        split: prod.splits option.splits sum.splits dest: m)
qed

lemma repopulate_keeps_defaults:
  "default_haloprop_list_inherited_by_mock (snd (snd (repopulate self w seed params))) =
     default_haloprop_list_inherited_by_mock w"
  by (simp add: repopulate_def Let_def log_call_def
      split: prod.splits option.splits sum.splits)

text \<open>
  C8: every construction, whether it succeeds or fails, leaves the module variable
  \<open>default_haloprop_list_inherited_by_mock\<close> of each rank's process set to the column names
  of the halo table given to it, whatever the variable held before. The variable is
  part of the world, not of the catalog: it is visible outside the constructed object,
  a repopulation keeps it, and the next construction in the same process finds it and
  replaces it by the column names of its own halo table, for the earlier catalog too.
\<close>

theorem construction_sets_global_default:
  "default_haloprop_list_inherited_by_mock
     (snd (HODBase_init makemodel w halos Lbox cosmology redshift mdef rsd seed cache params)) =
   map colnames halos \<and>
   default_haloprop_list_inherited_by_mock (snd (snd (repopulate self w' seed' params'))) =
     default_haloprop_list_inherited_by_mock w'"
  by (simp add: HODBase_init_defaults repopulate_keeps_defaults)

theorem construction_sets_global_default_witness:
  "default_haloprop_list_inherited_by_mock example_world = [[], []] \<and>
   default_haloprop_list_inherited_by_mock
     (snd (HODBase_init example_makemodel example_world example_halos (FloatV 100)
        [(''h'', FloatV 1)] (FloatV 0) ''vir'' None (IntV 1) False example_params)) =
     [[''halo_mvir'', ''gal_type''], [''halo_mvir'', ''gal_type'']] \<and>
   default_haloprop_list_inherited_by_mock
     (snd (snd (repopulate example_catalog example_world_built (IntV 2) []))) =
     [[''halo_mvir'', ''gal_type''], [''halo_mvir'', ''gal_type'']] \<and>
   default_haloprop_list_inherited_by_mock
     (snd (HODBase_init example_makemodel example_world_built example_locals (FloatV 100)
        [(''h'', FloatV 1)] (FloatV 0) ''vir'' None (IntV 1) False example_params)) =
     [[''x''], [''x''], [''x'']]"
proof -
  have names: "map colnames example_halos = [[''halo_mvir'', ''gal_type''], [''halo_mvir'', ''gal_type'']]"
    by (simp add: example_halos_def colnames_def)
  have names': "map colnames example_locals = [[''x''], [''x''], [''x'']]"
    by (simp add: example_locals_def colnames_def)
  have built: "default_haloprop_list_inherited_by_mock example_world_built =
     [[''halo_mvir'', ''gal_type''], [''halo_mvir'', ''gal_type'']]"
    by (simp add: example_world_built_def)
  have "default_haloprop_list_inherited_by_mock example_world = [[], []]"
    by (simp add: example_world_def)
  moreover note
    construction_sets_global_default [of example_makemodel example_world example_halos
      "FloatV 100" "[(''h'', FloatV 1)]" "FloatV 0" "''vir''" None "IntV 1" False example_params
      example_catalog example_world_built "IntV 2" "[]", unfolded names built]
    construction_sets_global_default [of example_makemodel example_world_built example_locals
      "FloatV 100" "[(''h'', FloatV 1)]" "FloatV 0" "''vir''" None "IntV 1" False example_params
      example_catalog example_world_built "IntV 2" "[]", unfolded names' built]
  ultimately show ?thesis by simp
qed

lemma set_params_missing:
  assumes "\<exists>p\<in>set ks. a p = None"
  shows "\<exists>p. find (\<lambda>p. a p = None) ks = Some p \<and> p \<in> set ks \<and> a p = None \<and>
           set_params a ks pd = Inl (MissingParameterError p)"
  using assms
proof (induction ks arbitrary: pd)
  case Nil
  then show ?case by simp
next
  case (Cons k ks)
  show ?case
  proof (cases "a k")
    case None
    then show ?thesis by simp
  next
    case (Some v)
    with Cons.prems have "\<exists>p\<in>set ks. a p = None" by auto
    from Cons.IH [OF this, of "AList.update k v pd"] Some show ?thesis by auto
  qed
qed

lemma dict_update_None:
  "dict_update d items k = None \<longleftrightarrow> d k = None \<and> k \<notin> set (map fst items)"
  unfolding dict_update_def
  by (induction items arbitrary: d) (auto split: if_splits)

lemma init_attrs_None:
  "init_attrs Lbox mdef redshift rsd seed params cosmology p = None \<longleftrightarrow>
     p \<notin> set [''BoxSize'', ''mdef'', ''redshift'', ''rsd'', ''seed''] \<and>
     p \<notin> set (map fst params) \<and>
     p \<notin> set (map (\<lambda>k. ''cosmo.'' @ k) (map fst cosmology))"
  by (auto simp: init_attrs_def dict_update_None comp_def case_prod_unfold image_iff)

text \<open>
  C3, amended: the parameters are looked up among the attributes of the catalog, which
  hold \<open>BoxSize\<close>, \<open>mdef\<close>, \<open>redshift\<close>, \<open>rsd\<close> and \<open>seed\<close>, the supplied parameters and
  the \<open>cosmo.\<close> entries. When a parameter declared by the model is not among them, the
  construction fails with \<open>MissingParameterError\<close> naming the first such parameter in the
  order of the model's dictionary (the missing one, when only one is missing), a name that
  is neither a supplied parameter nor one of the other attributes; and it fails before
  any call to a collective: the log of calls is as it was.
\<close>

theorem construction_missing_parameter:
  assumes "a = init_attrs Lbox mdef redshift
                 (case rsd of None \<Rightarrow> ListV [IntV 0, IntV 0, FloatV 0] | Some r \<Rightarrow> r)
                 seed params cosmology"
    and "m = makemodel halos cosmology a (get_halo_mass_key mdef) (get_halo_boundary_key mdef)"
    and "\<exists>p\<in>set (map fst (param_dict m)). a p = None"
  shows "\<exists>p. find (\<lambda>p. a p = None) (map fst (param_dict m)) = Some p \<and>
           p \<in> set (map fst (param_dict m)) \<and>
           p \<notin> set [''BoxSize'', ''mdef'', ''redshift'', ''rsd'', ''seed''] \<and>
           p \<notin> set (map fst params) \<and>
           p \<notin> set (map (\<lambda>k. ''cosmo.'' @ k) (map fst cosmology)) \<and>
           fst (HODBase_init makemodel w halos Lbox cosmology redshift mdef rsd seed cache params) =
             Inl (MissingParameterError p) \<and>
           calls (snd (HODBase_init makemodel w halos Lbox cosmology redshift mdef rsd seed cache
             params)) = calls w"
proof -
  from set_params_missing [OF assms(3), of "param_dict m"] obtain p where
    p: "find (\<lambda>p. a p = None) (map fst (param_dict m)) = Some p"
      "p \<in> set (map fst (param_dict m))" "a p = None"
    and s: "set_params a (map fst (param_dict m)) (param_dict m) = Inl (MissingParameterError p)"
    by blast
  from s have "HODBase_init makemodel w halos Lbox cosmology redshift mdef rsd seed cache params =
      (Inl (MissingParameterError p),
       w\<lparr>default_haloprop_list_inherited_by_mock := map colnames halos\<rparr>)"
    unfolding assms(1,2) by (simp add: HODBase_init_def Let_def)
  moreover from p(3) have "p \<notin> set [''BoxSize'', ''mdef'', ''redshift'', ''rsd'', ''seed''] \<and>
     p \<notin> set (map fst params) \<and>
     p \<notin> set (map (\<lambda>k. ''cosmo.'' @ k) (map fst cosmology))"
    unfolding assms(1) init_attrs_None .
  ultimately show ?thesis using p by auto
qed

theorem construction_missing_parameter_witness:
  "fst (HODBase_init example_makemodel example_world example_halos (FloatV 100)
        [(''h'', FloatV 1)] (FloatV 0) ''vir'' None (IntV 1) False [(''logMmin'', FloatV 12)]) =
     Inl (MissingParameterError ''alpha'') \<and>
   calls (snd (HODBase_init example_makemodel example_world example_halos (FloatV 100)
        [(''h'', FloatV 1)] (FloatV 0) ''vir'' None (IntV 1) False [(''logMmin'', FloatV 12)])) = []"
proof -
  define a where "a = init_attrs (FloatV 100) ''vir'' (FloatV 0)
                 (case None of None \<Rightarrow> ListV [IntV 0, IntV 0, FloatV 0] | Some r \<Rightarrow> r)
                 (IntV 1) [(''logMmin'', FloatV 12)] [(''h'', FloatV 1)]"
  define m where "m = example_makemodel example_halos [(''h'', FloatV 1)] a
                 (get_halo_mass_key ''vir'') (get_halo_boundary_key ''vir'')"
  have keys: "map fst (param_dict m) = [''logMmin'', ''alpha'']"
    by (simp add: m_def example_makemodel_def)
  have present: "a ''logMmin'' \<noteq> None" and absent: "a ''alpha'' = None"
    by (simp_all add: a_def init_attrs_None)
  from absent have h: "\<exists>p\<in>set (map fst (param_dict m)). a p = None"
    by (simp add: keys)
  have first: "find (\<lambda>p. a p = None) (map fst (param_dict m)) = Some ''alpha''"
    using present absent by (simp add: keys)
  have c: "calls example_world = []" by (simp add: example_world_def)
  from construction_missing_parameter [where makemodel = example_makemodel
      and halos = example_halos and Lbox = "FloatV 100" and cosmology = "[(''h'', FloatV 1)]"
      and redshift = "FloatV 0" and mdef = "''vir''" and rsd = None and seed = "IntV 1"
      and params = "[(''logMmin'', FloatV 12)]" and w = example_world and cache = False,
      OF a_def m_def h]
  show ?thesis unfolding first c by auto
qed

lemma example_construction_redshift:
  "HODBase_init example_makemodel_redshift example_world
     example_halos (FloatV 100) [(''h'', FloatV 1)] (FloatV 0) ''vir'' None (IntV 1) False
     [(''alpha'', FloatV 2)]
   = (Inr (example_catalog
        \<lparr>attrs := init_attrs (FloatV 100) ''vir'' (FloatV 0) (ListV [IntV 0, IntV 0, FloatV 0])
                    (IntV 1) [(''alpha'', FloatV 2)] [(''h'', FloatV 1)],
         model := (model example_catalog)
                    \<lparr>param_dict := [(''alpha'', FloatV 2), (''redshift'', FloatV 0)]\<rparr>\<rparr>),
      example_world_built)"
proof -
  have n: "length example_halos = 2" by (simp add: example_halos_def)
  have names: "map colnames example_halos = [[''halo_mvir'', ''gal_type''], [''halo_mvir'', ''gal_type'']]"
    by (simp add: example_halos_def colnames_def)
  have size: "csize (Array_init c (source example_catalog) False) = 3" for c
    by (simp add: csize_def Array_init_def example_catalog_def len_def)
  have a: "init_attrs (FloatV 100) ''vir'' (FloatV 0) (ListV [IntV 0, IntV 0, FloatV 0])
             (IntV 1) [(''alpha'', FloatV 2)] [(''h'', FloatV 1)] ''seed'' = Some (IntV 1)"
    "init_attrs (FloatV 100) ''vir'' (FloatV 0) (ListV [IntV 0, IntV 0, FloatV 0])
             (IntV 1) [(''alpha'', FloatV 2)] [(''h'', FloatV 1)] ''alpha'' = Some (FloatV 2)"
    "init_attrs (FloatV 100) ''vir'' (FloatV 0) (ListV [IntV 0, IntV 0, FloatV 0])
             (IntV 1) [(''alpha'', FloatV 2)] [(''h'', FloatV 1)] ''redshift'' = Some (FloatV 0)"
    by (simp_all add: init_attrs_def dict_update_def)
  show ?thesis
    apply (simp add: HODBase_init_def Let_def example_makemodel_redshift_def
        example_model_redshift_def a
        get_halo_mass_key_def get_halo_boundary_key_def n names example_makesource size)
    apply (simp add: Array_init_def log_call_def example_world_def example_world_built_def
        example_catalog_def)
    done
qed

text \<open>
  C3 as stated fails: a model that declares a parameter \<open>redshift\<close>, constructed with a
  parameter mapping that lacks it, does not fail; the parameter is bound to the
  attribute of that name.
\<close>

theorem construction_missing_parameter_counterexample:
  "''redshift'' \<in> set (map fst (param_dict example_model_redshift)) \<and>
   ''redshift'' \<notin> set (map fst [(''alpha'', FloatV 2)]) \<and>
   \<not> isl (fst (HODBase_init example_makemodel_redshift
       example_world example_halos (FloatV 100) [(''h'', FloatV 1)] (FloatV 0) ''vir'' None
       (IntV 1) False [(''alpha'', FloatV 2)])) \<and>
   param_dict (model (projr (fst (HODBase_init example_makemodel_redshift
       example_world example_halos (FloatV 100) [(''h'', FloatV 1)] (FloatV 0) ''vir'' None
       (IntV 1) False [(''alpha'', FloatV 2)])))) =
     [(''alpha'', FloatV 2), (''redshift'', FloatV 0)]"
  by (simp add: example_construction_redshift) (simp add: example_model_redshift_def)

lemma example_scatter_empty:
  "ScatterArray \<lparr>dtype = d, rows = []\<rparr> 2 = [\<lparr>dtype = d, rows = []\<rparr>, \<lparr>dtype = d, rows = []\<rparr>]"
  by (simp add: ScatterArray_def len_def upt2 shard_rows_def)

lemma example_construction_seed0:
  "fst (HODBase_init example_makemodel example_world example_halos (FloatV 100) [(''h'', FloatV 1)]
     (FloatV 0) ''vir'' None (IntV 0) False example_params) = Inl EmptyResultError"
proof -
  have n: "length example_halos = 2" by (simp add: example_halos_def)
  show ?thesis
    by (simp add: HODBase_init_def Let_def example_makemodel_def example_attrs
        get_halo_mass_key_def get_halo_boundary_key_def n makesource_def example_gathered
        populate_mock_def example_transform_def take_galaxy_table_def example_normal
        log_populated_stats_def len_def example_scatter_empty log_call_def
        Array_init_def csize_def)
qed

lemma example_repopulate_seed0:
  "repopulate example_catalog example_world_built (IntV 0) [] =
     (None,
      example_catalog
        \<lparr>attrs := (attrs example_catalog)(''seed'' \<mapsto> IntV 0),
         source := [\<lparr>dtype = [(''halo_mvir'', Float64T), (''gal_type'', UnicodeT 10)], rows = []\<rparr>,
                    \<lparr>dtype = [(''halo_mvir'', Float64T), (''gal_type'', UnicodeT 10)], rows = []\<rparr>],
         generation := 2\<rparr>,
      example_world_built
        \<lparr>calls := calls example_world_built @
           [Call_mock_populate, Call_remove_object_dtypes, Call_ScatterArray, Call_Array_init]\<rparr>)"
  by (simp add: repopulate_def Let_def example_catalog_def mock_populate_def
      example_transform_def take_galaxy_table_def example_normal log_populated_stats_def len_def
      example_scatter_empty log_call_def Array_init_def)

text \<open>
  C1: the construction checks the collective size after the scatter and fails with
  \<open>EmptyResultError\<close> when it is zero; \<open>repopulate\<close> has no such check. With the seed for
  which the example population yields no galaxy, the construction fails, while
  \<open>repopulate\<close> on the populated catalog returns normally, having installed empty shards
  on both ranks and incremented the generation counter.
\<close>

theorem repopulate_installs_empty_catalog:
  "HODBase_init example_makemodel example_world example_halos (FloatV 100) [(''h'', FloatV 1)]
     (FloatV 0) ''vir'' None (IntV 1) False example_params =
     (Inr example_catalog, example_world_built) \<and>
   fst (HODBase_init example_makemodel example_world example_halos (FloatV 100) [(''h'', FloatV 1)]
     (FloatV 0) ''vir'' None (IntV 0) False example_params) = Inl EmptyResultError \<and>
   fst (repopulate example_catalog example_world_built (IntV 0) []) = None \<and>
   map len (source (fst (snd (repopulate example_catalog example_world_built (IntV 0) [])))) = [0, 0] \<and>
   csize (fst (snd (repopulate example_catalog example_world_built (IntV 0) []))) = 0 \<and>
   generation (fst (snd (repopulate example_catalog example_world_built (IntV 0) []))) = 2"
  by (simp add: example_construction example_construction_seed0 example_repopulate_seed0
      csize_def len_def)

section \<open>Properties of the conversion of object columns\<close>

lemma map_of_field_index:
  "map_of xs k = Some v \<Longrightarrow>
     \<exists>j. field_index (map fst xs) k = Some j \<and> j < length xs \<and> xs ! j = (k, v)"
proof (induction xs)
  case Nil
  then show ?case by simp
next
  case (Cons x xs)
  show ?case
  proof (cases "fst x = k")
    case True
    with Cons.prems show ?thesis by (cases x) auto
  next
    case False
    with Cons.prems have "map_of xs k = Some v" by (cases x) auto
    from Cons.IH [OF this] False show ?thesis by auto
  qed
qed

lemma map_of_update_first:
  "field_index (map fst xs) k = Some j \<Longrightarrow> map_of (xs[j := (k, v)]) = (map_of xs)(k \<mapsto> v)"
proof (induction xs arbitrary: j)
  case Nil
  then show ?case by simp
next
  case (Cons x xs)
  show ?case
  proof (cases "fst x = k")
    case True
    with Cons.prems have "j = 0" by simp
    with True show ?thesis by (cases x) auto
  next
    case False
    with Cons.prems obtain i where i: "field_index (map fst xs) k = Some i" "j = Suc i"
      by auto
    from Cons.IH [OF i(1)] False i(2) show ?thesis by (cases x) auto
  qed
qed

lemma names_update_first:
  assumes "field_index (map fst xs) k = Some j"
  shows "map fst (xs[j := (k, v)]) = map fst xs"
proof -
  from field_index_Some [OF assms] have "j < length xs" "map fst xs ! j = k" by simp_all
  then show ?thesis by (simp add: map_update list_update_same_conv)
qed

lemma zip_with_column:
  "map (\<lambda>(row, c). row[j := c]) (zip rs (map f (map (\<lambda>row. row ! j) rs))) =
     map (\<lambda>row. row[j := f (row ! j)]) rs"
  by (induction rs) simp_all

lemma setitem_astype_U:
  assumes "field_index (colnames data) col = Some j"
  shows "setitem data col (astype_U (map (\<lambda>row. row ! j) (rows data))) =
           \<lparr>dtype = (dtype data)[j := (col, fst (astype_U (map (\<lambda>row. row ! j) (rows data))))],
            rows = map (\<lambda>row. row[j := to_text (row ! j)]) (rows data)\<rparr>"
proof -
  have "snd (astype_U (map (\<lambda>row. row ! j) (rows data))) =
          map to_text (map (\<lambda>row. row ! j) (rows data))"
    by (simp add: astype_U_def)
  then show ?thesis
    using assms zip_with_column [of j "rows data" to_text]
    by (simp add: setitem_def)
qed

lemma convert_unchanged:
  "map_of (dtype data) col \<noteq> Some ObjectT \<Longrightarrow> convert_if_object col data = data"
  by (auto simp: convert_if_object_def split: option.splits ftype.splits sum.splits)

lemma convert_object:
  assumes "map_of (dtype data) col = Some ObjectT"
  shows "\<exists>j w. field_index (colnames data) col = Some j \<and> j < length (dtype data) \<and>
           convert_if_object col data =
             \<lparr>dtype = (dtype data)[j := (col, UnicodeT w)],
              rows = map (\<lambda>row. row[j := to_text (row ! j)]) (rows data)\<rparr>"
proof -
  from map_of_field_index [OF assms] obtain j where
    j: "field_index (colnames data) col = Some j" "j < length (dtype data)"
    by (auto simp: colnames_def)
  have w: "fst (astype_U column) = UnicodeT (fold max (map text_width column) 1)" for column
    by (simp add: astype_U_def)
  have "convert_if_object col data =
          setitem data col (astype_U (map (\<lambda>row. row ! j) (rows data)))"
    using assms j(1) by (simp add: convert_if_object_def getitem_def)
  with setitem_astype_U [OF j(1)]
  have c: "convert_if_object col data =
          \<lparr>dtype = (dtype data)[j := (col, UnicodeT
                      (fold max (map text_width (map (\<lambda>row. row ! j) (rows data))) 1))],
           rows = map (\<lambda>row. row[j := to_text (row ! j)]) (rows data)\<rparr>"
    unfolding w by simp
  show ?thesis
    by (intro exI conjI) (rule j(1), rule j(2), rule c)
qed

text \<open>What one step of the loop does to the type and the column of every name.\<close>

lemma convert_names: "colnames (convert_if_object col data) = colnames data"
proof (cases "map_of (dtype data) col = Some ObjectT")
  case False
  then show ?thesis by (simp add: convert_unchanged)
next
  case True
  from convert_object [OF this] obtain j w where
    j: "field_index (map fst (dtype data)) col = Some j"
    and c: "convert_if_object col data =
             \<lparr>dtype = (dtype data)[j := (col, UnicodeT w)],
              rows = map (\<lambda>row. row[j := to_text (row ! j)]) (rows data)\<rparr>"
    by (auto simp: colnames_def)
  show ?thesis unfolding c by (simp add: colnames_def names_update_first [OF j])
qed

lemma convert_len: "len (convert_if_object col data) = len data"
proof (cases "map_of (dtype data) col = Some ObjectT")
  case False
  then show ?thesis by (simp add: convert_unchanged)
next
  case True
  from convert_object [OF this] show ?thesis by (auto simp: len_def)
qed

lemma convert_wellformed: "wellformed data \<Longrightarrow> wellformed (convert_if_object col data)"
proof (cases "map_of (dtype data) col = Some ObjectT")
  case False
  then show "wellformed data \<Longrightarrow> ?thesis" by (simp add: convert_unchanged)
next
  case True
  assume "wellformed data"
  with convert_object [OF True] show ?thesis
    by (auto simp: wellformed_def list_all_iff)
qed

lemma convert_type:
  "map_of (dtype (convert_if_object col data)) n =
     (if n = col \<and> map_of (dtype data) col = Some ObjectT
      then map_of (dtype (convert_if_object col data)) col
      else map_of (dtype data) n)"
proof (cases "map_of (dtype data) col = Some ObjectT")
  case False
  then show ?thesis by (simp add: convert_unchanged)
next
  case True
  from convert_object [OF this] obtain j w where
    j: "field_index (map fst (dtype data)) col = Some j"
    and c: "convert_if_object col data =
             \<lparr>dtype = (dtype data)[j := (col, UnicodeT w)],
              rows = map (\<lambda>row. row[j := to_text (row ! j)]) (rows data)\<rparr>"
    by (auto simp: colnames_def)
  show ?thesis unfolding c using True by (simp add: map_of_update_first [OF j])
qed

lemma convert_type_object:
  assumes "map_of (dtype data) col = Some ObjectT"
  shows "\<exists>w. map_of (dtype (convert_if_object col data)) col = Some (UnicodeT w)"
proof -
  from convert_object [OF assms] obtain j w where
    j: "field_index (map fst (dtype data)) col = Some j"
    and c: "convert_if_object col data =
             \<lparr>dtype = (dtype data)[j := (col, UnicodeT w)],
              rows = map (\<lambda>row. row[j := to_text (row ! j)]) (rows data)\<rparr>"
    by (auto simp: colnames_def)
  show ?thesis unfolding c by (simp add: map_of_update_first [OF j])
qed

lemma field_index_inj:
  "field_index ns a = Some j \<Longrightarrow> field_index ns b = Some j \<Longrightarrow> a = b"
  using field_index_Some by blast

lemma convert_column_other:
  assumes "n \<noteq> col"
  shows "getitem (convert_if_object col data) n = getitem data n"
proof (cases "map_of (dtype data) col = Some ObjectT")
  case False
  then show ?thesis by (simp add: convert_unchanged)
next
  case True
  from convert_object [OF this] obtain j w where
    j: "field_index (colnames data) col = Some j"
    and c: "convert_if_object col data =
             \<lparr>dtype = (dtype data)[j := (col, UnicodeT w)],
              rows = map (\<lambda>row. row[j := to_text (row ! j)]) (rows data)\<rparr>"
    by auto
  have names: "colnames (convert_if_object col data) = colnames data"
    by (rule convert_names)
  show ?thesis
  proof (cases "field_index (colnames data) n")
    case None
    then show ?thesis by (simp add: getitem_def names)
  next
    case (Some i)
    with j assms have "i \<noteq> j" using field_index_inj by blast
    then have "map (\<lambda>row. row ! i) (rows (convert_if_object col data)) =
                 map (\<lambda>row. row ! i) (rows data)"
      unfolding c by simp
    with Some show ?thesis by (simp add: getitem_def names)
  qed
qed

lemma convert_column_object:
  assumes "map_of (dtype data) col = Some ObjectT" and "wellformed data"
  shows "\<exists>column. getitem data col = Inr column \<and>
           getitem (convert_if_object col data) col = Inr (map to_text column)"
proof -
  from convert_object [OF assms(1)] obtain j w where
    j: "field_index (colnames data) col = Some j" "j < length (dtype data)"
    and c: "convert_if_object col data =
             \<lparr>dtype = (dtype data)[j := (col, UnicodeT w)],
              rows = map (\<lambda>row. row[j := to_text (row ! j)]) (rows data)\<rparr>"
    by auto
  have names: "colnames (convert_if_object col data) = colnames data"
    by (rule convert_names)
  have "row[j := to_text (row ! j)] ! j = to_text (row ! j)" if "row \<in> set (rows data)" for row
    using that assms(2) j(2) by (simp add: wellformed_def list_all_iff)
  then have "map (\<lambda>row. row ! j) (rows (convert_if_object col data)) =
               map to_text (map (\<lambda>row. row ! j) (rows data))"
    unfolding c by simp
  with j(1) show ?thesis by (simp add: getitem_def names)
qed

text \<open>The whole loop, by induction on the names still to visit.\<close>

lemma loop_names: "colnames (remove_object_dtypes_loop cols data) = colnames data"
  by (induction cols arbitrary: data) (simp_all add: convert_names)

lemma loop_len: "len (remove_object_dtypes_loop cols data) = len data"
  by (induction cols arbitrary: data) (simp_all add: convert_len)

lemma loop_wellformed:
  "wellformed data \<Longrightarrow> wellformed (remove_object_dtypes_loop cols data)"
  by (induction cols arbitrary: data) (simp_all add: convert_wellformed)

lemma loop_type_kept:
  assumes "map_of (dtype data) n \<noteq> Some ObjectT \<or> n \<notin> set cols"
  shows "map_of (dtype (remove_object_dtypes_loop cols data)) n = map_of (dtype data) n"
  using assms
proof (induction cols arbitrary: data)
  case Nil
  show ?case by simp
next
  case (Cons c cs)
  let ?d = "convert_if_object c data"
  from Cons.prems have step: "map_of (dtype ?d) n = map_of (dtype data) n"
    using convert_type [of c data n] by auto
  with Cons.prems have "map_of (dtype ?d) n \<noteq> Some ObjectT \<or> n \<notin> set cs"
    by auto
  from Cons.IH [OF this] step show ?case by simp
qed

lemma loop_type_converted:
  assumes "map_of (dtype data) n = Some ObjectT" and "n \<in> set cols"
  shows "\<exists>w. map_of (dtype (remove_object_dtypes_loop cols data)) n = Some (UnicodeT w)"
  using assms
proof (induction cols arbitrary: data)
  case Nil
  then show ?case by simp
next
  case (Cons c cs)
  let ?d = "convert_if_object c data"
  show ?case
  proof (cases "n = c")
    case True
    with Cons.prems(1) obtain w where w: "map_of (dtype ?d) n = Some (UnicodeT w)"
      using convert_type_object by blast
    then have "map_of (dtype ?d) n \<noteq> Some ObjectT \<or> n \<notin> set cs" by simp
    from loop_type_kept [OF this] w show ?thesis by simp
  next
    case False
    with Cons.prems have "map_of (dtype ?d) n = Some ObjectT" and "n \<in> set cs"
      using convert_type [of c data n] by auto
    then show ?thesis using Cons.IH by simp
  qed
qed

lemma loop_column_kept:
  assumes "map_of (dtype data) n \<noteq> Some ObjectT \<or> n \<notin> set cols"
  shows "getitem (remove_object_dtypes_loop cols data) n = getitem data n"
  using assms
proof (induction cols arbitrary: data)
  case Nil
  show ?case by simp
next
  case (Cons c cs)
  let ?d = "convert_if_object c data"
  have step: "getitem ?d n = getitem data n"
  proof (cases "n = c")
    case True
    with Cons.prems have "map_of (dtype data) c \<noteq> Some ObjectT" by simp
    then show ?thesis by (simp add: convert_unchanged)
  next
    case False
    then show ?thesis by (rule convert_column_other)
  qed
  from Cons.prems have "map_of (dtype ?d) n = map_of (dtype data) n"
    using convert_type [of c data n] by auto
  with Cons.prems have "map_of (dtype ?d) n \<noteq> Some ObjectT \<or> n \<notin> set cs"
    by auto
  from Cons.IH [OF this] step show ?case by simp
qed

lemma loop_column_converted:
  assumes "map_of (dtype data) n = Some ObjectT" and "n \<in> set cols" and "wellformed data"
  shows "\<exists>column. getitem data n = Inr column \<and>
           getitem (remove_object_dtypes_loop cols data) n = Inr (map to_text column)"
  using assms
proof (induction cols arbitrary: data)
  case Nil
  then show ?case by simp
next
  case (Cons c cs)
  let ?d = "convert_if_object c data"
  show ?case
  proof (cases "n = c")
    case True
    with Cons.prems obtain column where
      col: "getitem data n = Inr column" "getitem ?d n = Inr (map to_text column)"
      using convert_column_object by blast
    from True Cons.prems(1) obtain w where "map_of (dtype ?d) n = Some (UnicodeT w)"
      using convert_type_object by blast
    then have "map_of (dtype ?d) n \<noteq> Some ObjectT \<or> n \<notin> set cs" by simp
    from loop_column_kept [OF this] col show ?thesis by simp
  next
    case False
    with Cons.prems have "map_of (dtype ?d) n = Some ObjectT" and "n \<in> set cs"
      using convert_type [of c data n] by auto
    moreover from Cons.prems(3) have "wellformed ?d" by (rule convert_wellformed)
    ultimately obtain column where
      "getitem ?d n = Inr column"
      "getitem (remove_object_dtypes_loop cs ?d) n = Inr (map to_text column)"
      using Cons.IH by blast
    moreover from False have "getitem ?d n = getitem data n" by (rule convert_column_other)
    ultimately show ?thesis by simp
  qed
qed

text \<open>\<open>remove_object_dtypes\<close> itself.\<close>

lemma object_name_is_column:
  "map_of (dtype data) n = Some t \<Longrightarrow> n \<in> set (colnames data)"
  by (auto simp: colnames_def dest: map_of_SomeD intro: rev_image_eqI)

lemma remove_object_dtypes_shape:
  "colnames (remove_object_dtypes data) = colnames data"
  "len (remove_object_dtypes data) = len data"
  by (simp_all add: remove_object_dtypes_def loop_names loop_len)

lemma remove_object_dtypes_object:
  assumes "map_of (dtype data) n = Some ObjectT" and "wellformed data"
  shows "\<exists>w column. map_of (dtype (remove_object_dtypes data)) n = Some (UnicodeT w) \<and>
           getitem data n = Inr column \<and>
           getitem (remove_object_dtypes data) n = Inr (map to_text column)"
proof -
  from assms(1) have n: "n \<in> set (colnames data)" by (rule object_name_is_column)
  from loop_type_converted [OF assms(1) n] loop_column_converted [OF assms(1) n assms(2)]
  show ?thesis unfolding remove_object_dtypes_def by blast
qed

lemma remove_object_dtypes_other:
  assumes "map_of (dtype data) n \<noteq> Some ObjectT"
  shows "map_of (dtype (remove_object_dtypes data)) n = map_of (dtype data) n"
    and "getitem (remove_object_dtypes data) n = getitem data n"
  using assms by (simp_all add: remove_object_dtypes_def loop_type_kept loop_column_kept)

lemma remove_object_dtypes_no_object:
  "map_of (dtype (remove_object_dtypes data)) n \<noteq> Some ObjectT"
proof (cases "map_of (dtype data) n = Some ObjectT")
  case True
  then have "n \<in> set (colnames data)" by (rule object_name_is_column)
  from loop_type_converted [OF True this] show ?thesis
    unfolding remove_object_dtypes_def by auto
next
  case False
  then show ?thesis by (simp add: remove_object_dtypes_other)
qed

section \<open>The calls of one population cycle\<close>

lemma makesource_success:
  assumes "makesource self w = (Inr (data, self'), w')"
  shows "\<exists>seed galaxies.
           attrs self ''seed'' = Some seed \<and>
           transform (model self) (param_dict (model self)) (mass self) seed
             (remove_object_dtypes (GatherArray (halo_table self))) = Inr galaxies \<and>
           data = ScatterArray (remove_object_dtypes galaxies) (comm_size self) \<and>
           self' = self
             \<lparr>halo_table := (halo_table self)[0 := remove_object_dtypes (GatherArray (halo_table self))],
              model := (model self)
                \<lparr>mock := Some \<lparr>mock_halo_table = remove_object_dtypes (GatherArray (halo_table self)),
                                galaxy_table = None\<rparr>\<rparr>\<rparr> \<and>
           calls w' = calls w @ [Call_GatherArray, Call_remove_object_dtypes, Call_populate_mock,
                                 Call_remove_object_dtypes, Call_ScatterArray]"
  using assms
  by (auto simp: makesource_def Let_def populate_mock_def take_galaxy_table_def log_call_def
      split: option.splits sum.splits prod.splits)

lemma construction_cycle:
  assumes "HODBase_init makemodel w halos Lbox cosmology redshift mdef rsd seed cache params =
             (Inr c, w')"
  shows "calls w' = calls w @ [Call_GatherArray, Call_remove_object_dtypes, Call_populate_mock,
                               Call_remove_object_dtypes, Call_ScatterArray, Call_Array_init] \<and>
         (\<exists>s galaxies.
            attrs c ''seed'' = Some s \<and>
            transform (model c) (param_dict (model c)) (mass c) s
              (remove_object_dtypes (GatherArray halos)) = Inr galaxies \<and>
            source c = ScatterArray (remove_object_dtypes galaxies) (length halos)) \<and>
         map_option mock_halo_table (mock (model c)) = Some (remove_object_dtypes (GatherArray halos))"
proof -
  define a where "a = init_attrs Lbox mdef redshift
      (case rsd of None \<Rightarrow> ListV [IntV 0, IntV 0, FloatV 0] | Some r \<Rightarrow> r) seed params cosmology"
  define m where "m = makemodel halos cosmology a (get_halo_mass_key mdef) (get_halo_boundary_key mdef)"
  define w1 where "w1 = w\<lparr>default_haloprop_list_inherited_by_mock := map colnames halos\<rparr>"
  from assms obtain pd where pd: "set_params a (map fst (param_dict m)) (param_dict m) = Inr pd"
    by (auto simp: HODBase_init_def Let_def a_def m_def split: sum.splits)
  define self where "self =
     \<lparr>halo_table = halos, cosmo = cosmology, comm_size = length halos, attrs = a,
      mass = get_halo_mass_key mdef, radius = get_halo_boundary_key mdef,
      model = m\<lparr>param_dict := pd\<rparr>, source = [], use_cache = cache, generation = 0\<rparr>"
  from assms pd obtain data self1 w2 where
    ms: "makesource self w1 = (Inr (data, self1), w2)"
    and c: "c = Array_init self1 data cache" and w': "w' = log_call Call_Array_init w2"
    by (auto simp: HODBase_init_def Let_def a_def [symmetric] m_def [symmetric]
        self_def [symmetric] w1_def [symmetric] split: sum.splits prod.splits if_splits)
  from makesource_success [OF ms] obtain s galaxies where
    "attrs self ''seed'' = Some s"
    "transform (model self) (param_dict (model self)) (mass self) s
             (remove_object_dtypes (GatherArray (halo_table self))) = Inr galaxies"
    "data = ScatterArray (remove_object_dtypes galaxies) (comm_size self)"
    "self1 = self
             \<lparr>halo_table := (halo_table self)[0 := remove_object_dtypes (GatherArray (halo_table self))],
              model := (model self)
                \<lparr>mock := Some \<lparr>mock_halo_table = remove_object_dtypes (GatherArray (halo_table self)),
                                galaxy_table = None\<rparr>\<rparr>\<rparr>"
    "calls w2 = calls w1 @ [Call_GatherArray, Call_remove_object_dtypes, Call_populate_mock,
                                 Call_remove_object_dtypes, Call_ScatterArray]"
    by blast
  then show ?thesis
    unfolding c w' by (auto simp: Array_init_def log_call_def self_def w1_def)
qed

lemma repopulation_cycle:
  assumes "repopulate self w seed params = (None, c, w')"
  shows "calls w' = calls w @ [Call_mock_populate, Call_remove_object_dtypes, Call_ScatterArray,
                               Call_Array_init] \<and>
         (\<exists>mk galaxies.
            mock (model self) = Some mk \<and>
            transform (model self) (param_dict (model c)) (mass self) seed (mock_halo_table mk)
              = Inr galaxies \<and>
            source c = ScatterArray (remove_object_dtypes galaxies) (comm_size self) \<and>
            mock (model c) = Some (mk\<lparr>galaxy_table := None\<rparr>)) \<and>
         halo_table c = halo_table self"
  using assms
  by (auto simp: repopulate_def Let_def mock_populate_def take_galaxy_table_def log_call_def
      Array_init_def split: option.splits sum.splits prod.splits)

text \<open>
  C7, amended: \<open>remove_object_dtypes\<close> keeps the names and the number of rows of an array,
  leaves no column of object type, turns every cell of an object column into its text
  under a fixed-width text type, and leaves the type and the cells of every other column
  as they are. A construction applies it to the gathered halo table before the population
  and to the galaxy table after it: the table handed to the population and kept by the
  mock is the converted gathered table, and the shards are cut from the converted galaxy
  table. A repopulation gathers nothing and converts nothing before the population, which
  reads the halo table the mock has kept; it applies the conversion once, to the galaxy
  table, and cuts the shards from the result.
\<close>

theorem object_columns_to_text:
  "(wellformed data \<longrightarrow>
      colnames (remove_object_dtypes data) = colnames data \<and>
      len (remove_object_dtypes data) = len data \<and>
      (\<forall>n. map_of (dtype (remove_object_dtypes data)) n \<noteq> Some ObjectT) \<and>
      (\<forall>n. map_of (dtype data) n = Some ObjectT \<longrightarrow>
         (\<exists>w column. map_of (dtype (remove_object_dtypes data)) n = Some (UnicodeT w) \<and>
            getitem data n = Inr column \<and>
            getitem (remove_object_dtypes data) n = Inr (map to_text column))) \<and>
      (\<forall>n. map_of (dtype data) n \<noteq> Some ObjectT \<longrightarrow>
         map_of (dtype (remove_object_dtypes data)) n = map_of (dtype data) n \<and>
         getitem (remove_object_dtypes data) n = getitem data n)) \<and>
   (HODBase_init makemodel w halos Lbox cosmology redshift mdef rsd seed cache params = (Inr c, w') \<longrightarrow>
      calls w' = calls w @ [Call_GatherArray, Call_remove_object_dtypes, Call_populate_mock,
                            Call_remove_object_dtypes, Call_ScatterArray, Call_Array_init] \<and>
      (\<exists>s galaxies.
         attrs c ''seed'' = Some s \<and>
         transform (model c) (param_dict (model c)) (mass c) s
           (remove_object_dtypes (GatherArray halos)) = Inr galaxies \<and>
         source c = ScatterArray (remove_object_dtypes galaxies) (length halos)) \<and>
      map_option mock_halo_table (mock (model c)) = Some (remove_object_dtypes (GatherArray halos))) \<and>
   (repopulate self v seed' params' = (None, c', v') \<longrightarrow>
      calls v' = calls v @ [Call_mock_populate, Call_remove_object_dtypes, Call_ScatterArray,
                            Call_Array_init] \<and>
      (\<exists>mk galaxies.
         mock (model self) = Some mk \<and>
         transform (model self) (param_dict (model c')) (mass self) seed' (mock_halo_table mk)
           = Inr galaxies \<and>
         source c' = ScatterArray (remove_object_dtypes galaxies) (comm_size self) \<and>
         mock (model c') = Some (mk\<lparr>galaxy_table := None\<rparr>)) \<and>
      halo_table c' = halo_table self)"
proof (intro conjI impI)
  show "colnames (remove_object_dtypes data) = colnames data"
    and "len (remove_object_dtypes data) = len data"
    by (rule remove_object_dtypes_shape)+
  show "\<forall>n. map_of (dtype (remove_object_dtypes data)) n \<noteq> Some ObjectT"
    by (simp add: remove_object_dtypes_no_object)
  show "\<forall>n. map_of (dtype data) n = Some ObjectT \<longrightarrow>
         (\<exists>w column. map_of (dtype (remove_object_dtypes data)) n = Some (UnicodeT w) \<and>
            getitem data n = Inr column \<and>
            getitem (remove_object_dtypes data) n = Inr (map to_text column))"
    if "wellformed data"
    using that remove_object_dtypes_object by blast
  show "\<forall>n. map_of (dtype data) n \<noteq> Some ObjectT \<longrightarrow>
         map_of (dtype (remove_object_dtypes data)) n = map_of (dtype data) n \<and>
         getitem (remove_object_dtypes data) n = getitem data n"
    by (simp add: remove_object_dtypes_other)
next
  assume built: "HODBase_init makemodel w halos Lbox cosmology redshift mdef rsd seed cache params
                   = (Inr c, w')"
  from construction_cycle [OF built]
  show "calls w' = calls w @ [Call_GatherArray, Call_remove_object_dtypes, Call_populate_mock,
                            Call_remove_object_dtypes, Call_ScatterArray, Call_Array_init]"
    and "\<exists>s galaxies.
         attrs c ''seed'' = Some s \<and>
         transform (model c) (param_dict (model c)) (mass c) s
           (remove_object_dtypes (GatherArray halos)) = Inr galaxies \<and>
         source c = ScatterArray (remove_object_dtypes galaxies) (length halos)"
    and "map_option mock_halo_table (mock (model c)) = Some (remove_object_dtypes (GatherArray halos))"
    by blast+
next
  assume again: "repopulate self v seed' params' = (None, c', v')"
  from repopulation_cycle [OF again]
  show "calls v' = calls v @ [Call_mock_populate, Call_remove_object_dtypes, Call_ScatterArray,
                            Call_Array_init]"
    and "\<exists>mk galaxies.
         mock (model self) = Some mk \<and>
         transform (model self) (param_dict (model c')) (mass self) seed' (mock_halo_table mk)
           = Inr galaxies \<and>
         source c' = ScatterArray (remove_object_dtypes galaxies) (comm_size self) \<and>
         mock (model c') = Some (mk\<lparr>galaxy_table := None\<rparr>)"
    and "halo_table c' = halo_table self"
    by blast+
qed

lemma example_repopulate_seed2:
  "repopulate example_catalog example_world_built (IntV 2) [] =
     (None,
      example_catalog\<lparr>attrs := (attrs example_catalog)(''seed'' \<mapsto> IntV 2), generation := 2\<rparr>,
      example_world_built
        \<lparr>calls := calls example_world_built @
           [Call_mock_populate, Call_remove_object_dtypes, Call_ScatterArray, Call_Array_init]\<rparr>)"
  by (simp add: repopulate_def Let_def example_catalog_def mock_populate_def
      example_transform_def take_galaxy_table_def example_normal log_populated_stats_def len_def
      getitem_def colnames_def example_scatter log_call_def Array_init_def)

text \<open>
  C7 as stated fails for repopulation: the calls of a successful repopulation are the
  population, one conversion after it, the scatter and the installation. No conversion
  precedes the population and nothing is gathered.
\<close>

theorem object_columns_to_text_counterexample:
  "fst (repopulate example_catalog example_world_built (IntV 2) []) = None \<and>
   drop (length (calls example_world_built))
     (calls (snd (snd (repopulate example_catalog example_world_built (IntV 2) [])))) =
     [Call_mock_populate, Call_remove_object_dtypes, Call_ScatterArray, Call_Array_init] \<and>
   hd (drop (length (calls example_world_built))
     (calls (snd (snd (repopulate example_catalog example_world_built (IntV 2) []))))) =
     Call_mock_populate \<and>
   Call_GatherArray \<notin> set (drop (length (calls example_world_built))
     (calls (snd (snd (repopulate example_catalog example_world_built (IntV 2) [])))))"
  by (simp add: example_repopulate_seed2)

theorem object_columns_to_text_witness:
  "getitem (remove_object_dtypes (GatherArray example_halos)) ''gal_type'' =
     Inr [Txt ''centrals'', Txt ''satellites'', Txt ''centrals''] \<and>
   getitem (remove_object_dtypes (GatherArray example_halos)) ''halo_mvir'' =
     Inr [Num 10, Num 20, Num 30] \<and>
   map_of (dtype (remove_object_dtypes (GatherArray example_halos))) ''halo_mvir'' = Some Float64T \<and>
   calls example_world_built =
     calls example_world @ [Call_GatherArray, Call_remove_object_dtypes, Call_populate_mock,
                            Call_remove_object_dtypes, Call_ScatterArray, Call_Array_init] \<and>
   map_option mock_halo_table (mock (model example_catalog)) =
     Some (remove_object_dtypes (GatherArray example_halos)) \<and>
   calls (snd (snd (repopulate example_catalog example_world_built (IntV 2) []))) =
     calls example_world_built @ [Call_mock_populate, Call_remove_object_dtypes,
                                  Call_ScatterArray, Call_Array_init] \<and>
   halo_table (fst (snd (repopulate example_catalog example_world_built (IntV 2) []))) =
     halo_table example_catalog"
proof -
  let ?all = "GatherArray example_halos"
  let ?c = "example_catalog\<lparr>attrs := (attrs example_catalog)(''seed'' \<mapsto> IntV 2), generation := 2\<rparr>"
  let ?v = "example_world_built
        \<lparr>calls := calls example_world_built @
           [Call_mock_populate, Call_remove_object_dtypes, Call_ScatterArray, Call_Array_init]\<rparr>"
  have wf: "wellformed ?all"
    by (simp add: wellformed_def GatherArray_def example_halos_def)
  have types: "map_of (dtype ?all) ''gal_type'' = Some ObjectT"
    "map_of (dtype ?all) ''halo_mvir'' = Some Float64T"
    by (simp_all add: GatherArray_def example_halos_def)
  have columns: "getitem ?all ''gal_type'' = Inr [Obj ''centrals'', Obj ''satellites'', Obj ''centrals'']"
    "getitem ?all ''halo_mvir'' = Inr [Num 10, Num 20, Num 30]"
    by (simp_all add: getitem_def colnames_def GatherArray_def example_halos_def)
  note t = object_columns_to_text [where data = ?all and makemodel = example_makemodel
      and w = example_world and halos = example_halos and Lbox = "FloatV 100"
      and cosmology = "[(''h'', FloatV 1)]" and redshift = "FloatV 0" and mdef = "''vir''"
      and rsd = None and seed = "IntV 1" and cache = False and params = example_params
      and c = example_catalog and w' = example_world_built and self = example_catalog
      and v = example_world_built and seed' = "IntV 2" and params' = "[]" and c' = ?c
      and v' = ?v]
  from t wf types(1) columns(1)
  have "getitem (remove_object_dtypes ?all) ''gal_type'' =
          Inr (map to_text [Obj ''centrals'', Obj ''satellites'', Obj ''centrals''])"
    by fastforce
  then have gal: "getitem (remove_object_dtypes ?all) ''gal_type'' =
          Inr [Txt ''centrals'', Txt ''satellites'', Txt ''centrals'']"
    by (simp add: to_text_def)
  from t wf types(2) columns(2)
  have mass: "getitem (remove_object_dtypes ?all) ''halo_mvir'' = Inr [Num 10, Num 20, Num 30]"
    "map_of (dtype (remove_object_dtypes ?all)) ''halo_mvir'' = Some Float64T"
    by fastforce+
  from t example_construction
  have built: "calls example_world_built =
     calls example_world @ [Call_GatherArray, Call_remove_object_dtypes, Call_populate_mock,
                            Call_remove_object_dtypes, Call_ScatterArray, Call_Array_init]"
    "map_option mock_halo_table (mock (model example_catalog)) =
       Some (remove_object_dtypes ?all)"
    by blast+
  from t example_repopulate_seed2
  have "calls ?v = calls example_world_built @ [Call_mock_populate, Call_remove_object_dtypes,
                                  Call_ScatterArray, Call_Array_init]"
    "halo_table ?c = halo_table example_catalog"
    by blast+
  then have again: "calls (snd (snd (repopulate example_catalog example_world_built (IntV 2) []))) =
     calls example_world_built @ [Call_mock_populate, Call_remove_object_dtypes,
                                  Call_ScatterArray, Call_Array_init]"
    "halo_table (fst (snd (repopulate example_catalog example_world_built (IntV 2) []))) =
     halo_table example_catalog"
    by (simp_all add: example_repopulate_seed2)
  from gal mass built again show ?thesis by simp
qed

end
